theory Spec2Isabelle
  imports Complex_Main "HOL-Library.AList" "HOL-Library.Multiset"
begin

text \<open>
  A shallow embedding of the consensus core of the Time-Rights Chain (CPC): the UTXO state
  engine and lock scripts of utxo.py, the transaction model and validator of transaction.py,
  and the proof-of-work miner of cpc_miner.py. All definitions come first; the lemmas and
  theorems about them follow.

  Conventions. A Python \<open>float\<close> is a real number (no rounding, no NaN), a Python \<open>int\<close>
  an unbounded integer, a \<open>str\<close> a list of characters. Library code the repository
  calls but does not define is a parameter of the functions that use it: \<open>sha256_json\<close>
  stands for \<open>hashlib.sha256(json.dumps(d, sort_keys=True).encode()).hexdigest()\<close> and
  \<open>ecdsa\<close> for the base64 decoding and secp256k1 verification wrapped by
  \<open>_verify_single_signature\<close>. Every reading of \<open>time.time()\<close> is a parameter too.
\<close>

section \<open>Python values\<close>

text \<open>
  The exceptions the modelled code can raise. A function that may raise returns
  \<open>error + 'a\<close>, with \<open>Inl\<close> the exception.
\<close>

datatype error = KeyError | ValueError | IndexError

definition ebind :: "error + 'a \<Rightarrow> ('a \<Rightarrow> error + 'b) \<Rightarrow> error + 'b" where
  "ebind m f = (case m of Inl e \<Rightarrow> Inl e | Inr x \<Rightarrow> f x)"

text \<open>JSON values, as \<open>json.dumps\<close> receives them.\<close>

datatype json =
    JNull
  | JBool bool
  | JInt int
  | JNum real
  | JStr string
  | JList "json list"
  | JDict "(string \<times> json) list"

definition json_opt_str :: "string option \<Rightarrow> json" where
  "json_opt_str x = (case x of None \<Rightarrow> JNull | Some s \<Rightarrow> JStr s)"

text \<open>\<open>int(x)\<close> on a float truncates towards zero.\<close>

definition py_int :: "real \<Rightarrow> int" where
  "py_int x = (if 0 \<le> x then \<lfloor>x\<rfloor> else \<lceil>x\<rceil>)"

text \<open>\<open>str(n)\<close> for an integer: decimal digits, with a leading minus sign.\<close>

definition digit_char :: "nat \<Rightarrow> char" where
  "digit_char d = ''0123456789'' ! d"

fun str_nat :: "nat \<Rightarrow> string" where
  "str_nat n = (if n < 10 then [digit_char n] else str_nat (n div 10) @ [digit_char (n mod 10)])"

declare str_nat.simps [simp del]

definition str_int :: "int \<Rightarrow> string" where
  "str_int i = (if i < 0 then CHR ''-'' # str_nat (nat (- i)) else str_nat (nat i))"

text \<open>
  \<open>int(s)\<close> on a string, for the ASCII range: surrounding whitespace is stripped, then an
  optional sign, then decimal digits, with single underscores allowed between digits.
  Anything else raises \<open>ValueError\<close>.
\<close>

definition is_digit :: "char \<Rightarrow> bool" where
  "is_digit c = (c \<in> set ''0123456789'')"

definition digit_val :: "char \<Rightarrow> nat" where
  "digit_val c = of_char c - 48"

fun digits_val :: "nat \<Rightarrow> string \<Rightarrow> nat" where
  "digits_val acc [] = acc"
| "digits_val acc (c # cs) = digits_val (acc * 10 + digit_val c) cs"

fun digits_ok :: "string \<Rightarrow> bool" where
  "digits_ok [] = False"
| "digits_ok [c] = is_digit c"
| "digits_ok (c # d # cs) =
     (is_digit c \<and> (if d = CHR ''_'' then digits_ok cs else digits_ok (d # cs)))"

definition is_space :: "char \<Rightarrow> bool" where
  "is_space c = (c \<in> set [CHR '' '', CHR 0x09, CHR 0x0A, CHR 0x0B, CHR 0x0C, CHR 0x0D,
                           CHR 0x1C, CHR 0x1D, CHR 0x1E, CHR 0x1F])"

definition py_strip :: "string \<Rightarrow> string" where
  "py_strip s = rev (dropWhile is_space (rev (dropWhile is_space s)))"

definition py_int_of_str :: "string \<Rightarrow> error + int" where
  "py_int_of_str s =
     (let t = py_strip s;
          neg = (t \<noteq> [] \<and> hd t = CHR ''-'');
          body = (if t \<noteq> [] \<and> (hd t = CHR ''-'' \<or> hd t = CHR ''+'') then tl t else t)
      in if digits_ok body
         then Inr ((if neg then - 1 else 1)
                     * int (digits_val 0 (filter (\<lambda>c. c \<noteq> CHR ''_'') body)))
         else Inl ValueError)"

text \<open>\<open>s.split(sep)\<close> and \<open>sep.join(parts)\<close> for a one-character separator, and
  \<open>s.startswith(p)\<close>.\<close>

fun split_on :: "char \<Rightarrow> string \<Rightarrow> string list" where
  "split_on sep [] = [[]]"
| "split_on sep (c # cs) =
     (if c = sep then [] # split_on sep cs
      else (case split_on sep cs of [] \<Rightarrow> [[c]] | p # ps \<Rightarrow> (c # p) # ps))"

fun join_with :: "char \<Rightarrow> string list \<Rightarrow> string" where
  "join_with sep [] = []"
| "join_with sep [p] = p"
| "join_with sep (p # q # ps) = p @ sep # join_with sep (q # ps)"

definition startswith :: "string \<Rightarrow> string \<Rightarrow> bool" where
  "startswith s p = (take (length p) s = p)"

text \<open>
  A Python \<open>dict\<close> keeps insertion order: it is an association list with distinct keys.
  \<open>d[k] = v\<close> overwrites in place or appends; \<open>del d[k]\<close> raises \<open>KeyError\<close> when the
  key is absent.
\<close>

definition dict_contains :: "('k \<times> 'v) list \<Rightarrow> 'k \<Rightarrow> bool" where
  "dict_contains d k = (k \<in> set (map fst d))"

definition dict_get :: "('k \<times> 'v) list \<Rightarrow> 'k \<Rightarrow> 'v option" where
  "dict_get d k = map_of d k"

definition dict_setitem :: "('k \<times> 'v) list \<Rightarrow> 'k \<Rightarrow> 'v \<Rightarrow> ('k \<times> 'v) list" where
  "dict_setitem d k v = AList.update k v d"

definition dict_delitem :: "('k \<times> 'v) list \<Rightarrow> 'k \<Rightarrow> error + ('k \<times> 'v) list" where
  "dict_delitem d k = (if dict_contains d k then Inr (AList.delete k d) else Inl KeyError)"

text \<open>Truth value of an optional string: \<open>None\<close> and \<open>""\<close> are false.\<close>

definition str_truthy :: "string option \<Rightarrow> bool" where
  "str_truthy x = (case x of None \<Rightarrow> False | Some s \<Rightarrow> s \<noteq> [])"

text \<open>Truth value of an optional integer: \<open>None\<close> and \<open>0\<close> are false.\<close>

definition int_truthy :: "int option \<Rightarrow> bool" where
  "int_truthy x = (case x of None \<Rightarrow> False | Some n \<Rightarrow> n \<noteq> 0)"

section \<open>utxo.py: the data model\<close>

definition AUTHORIZATION_DURATION_SECONDS :: int where
  "AUTHORIZATION_DURATION_SECONDS = 90 * 24 * 3600"

text \<open>
  A payload is a Python dict. The model keeps the eight keys that
  \<open>CopyrightPayload.to_dict\<close> writes, each with the type \<open>CopyrightPayload\<close> declares for
  it; \<open>None\<close> is an absent key. \<open>parent_utxo\<close> is declared \<open>Optional[str]\<close>: there
  \<open>Some None\<close> is a key that is present and holds \<open>None\<close>.
\<close>

record payload =
  work_hash :: "string option"
  work_title :: "string option"
  author :: "string option"
  copyright_type :: "string option"
  rights_scope :: "string list option"
  parent_utxo :: "string option option"
  p_metadata :: "(string \<times> json) list option"
  created_at :: "real option"

definition empty_payload :: payload where
  "empty_payload = \<lparr> work_hash = None, work_title = None, author = None,
     copyright_type = None, rights_scope = None, parent_utxo = None,
     p_metadata = None, created_at = None \<rparr>"

text \<open>Truth value of the dict: \<open>{}\<close> is false.\<close>

definition payload_truthy :: "payload \<Rightarrow> bool" where
  "payload_truthy p = (p \<noteq> empty_payload)"

text \<open>\<open>payload.get("parent_utxo")\<close>.\<close>

definition get_parent_utxo :: "payload \<Rightarrow> string option" where
  "get_parent_utxo p = (case parent_utxo p of None \<Rightarrow> None | Some x \<Rightarrow> x)"

text \<open>\<open>payload.get("rights_scope", [])\<close>.\<close>

definition get_rights_scope :: "payload \<Rightarrow> string list" where
  "get_rights_scope p = (case rights_scope p of None \<Rightarrow> [] | Some r \<Rightarrow> r)"

definition payload_to_json :: "payload \<Rightarrow> json" where
  "payload_to_json p = JDict (
     (case work_hash p of None \<Rightarrow> [] | Some s \<Rightarrow> [(''work_hash'', JStr s)]) @
     (case work_title p of None \<Rightarrow> [] | Some s \<Rightarrow> [(''work_title'', JStr s)]) @
     (case author p of None \<Rightarrow> [] | Some s \<Rightarrow> [(''author'', JStr s)]) @
     (case copyright_type p of None \<Rightarrow> [] | Some s \<Rightarrow> [(''copyright_type'', JStr s)]) @
     (case rights_scope p of None \<Rightarrow> [] | Some r \<Rightarrow> [(''rights_scope'', JList (map JStr r))]) @
     (case parent_utxo p of None \<Rightarrow> [] | Some x \<Rightarrow> [(''parent_utxo'', json_opt_str x)]) @
     (case p_metadata p of None \<Rightarrow> [] | Some m \<Rightarrow> [(''metadata'', JDict m)]) @
     (case created_at p of None \<Rightarrow> [] | Some t \<Rightarrow> [(''created_at'', JNum t)]))"

text \<open>
  Class \<open>UTXO\<close>. The field \<open>created_time\<close>, the wall-clock time at which the object
  was built, is read by no function modelled here and is left out.
\<close>

record utxo =
  u_txid :: string
  u_vout :: int
  u_amount :: real
  u_address :: string
  u_script_pubkey :: string
  u_utxo_type :: string
  u_payload :: payload

definition identifier_of :: "string \<Rightarrow> int \<Rightarrow> string" where
  "identifier_of t v = t @ '':'' @ str_int v"

definition get_identifier :: "utxo \<Rightarrow> string" where
  "get_identifier u = identifier_of (u_txid u) (u_vout u)"

text \<open>Class \<open>CopyrightPayload\<close>, as \<open>from_dict\<close> builds it from a payload dict.\<close>

record copyright_payload =
  cp_work_hash :: string
  cp_work_title :: string
  cp_author :: string
  cp_copyright_type :: string
  cp_rights_scope :: "string list"
  cp_parent_utxo :: "string option"
  cp_metadata :: "(string \<times> json) list"
  cp_created_at :: real

text \<open>The default \<open>rights_scope\<close> of the constructor: four rights, as UTF-8 bytes.\<close>

definition DEFAULT_RIGHTS_SCOPE :: "string list" where
  "DEFAULT_RIGHTS_SCOPE =
     [[CHR 0xE5, CHR 0xA4, CHR 0x8D, CHR 0xE5, CHR 0x88, CHR 0xB6, CHR 0xE6, CHR 0x9D, CHR 0x83],
      [CHR 0xE5, CHR 0x8F, CHR 0x91, CHR 0xE8, CHR 0xA1, CHR 0x8C, CHR 0xE6, CHR 0x9D, CHR 0x83],
      [CHR 0xE6, CHR 0x94, CHR 0xB9, CHR 0xE7, CHR 0xBC, CHR 0x96, CHR 0xE6, CHR 0x9D, CHR 0x83],
      [CHR 0xE8, CHR 0xA1, CHR 0xA8, CHR 0xE6, CHR 0xBC, CHR 0x94, CHR 0xE6, CHR 0x9D, CHR 0x83]]"

text \<open>
  \<open>CopyrightPayload.from_dict\<close>: the four keys read with \<open>data[...]\<close> must be present;
  \<open>created_at\<close> defaults to the current time \<open>now\<close>.
\<close>

definition payload_from_dict :: "real \<Rightarrow> payload \<Rightarrow> error + copyright_payload" where
  "payload_from_dict now d =
     (case (work_hash d, work_title d, author d, copyright_type d) of
        (Some wh, Some wt, Some au, Some ct) \<Rightarrow>
          Inr \<lparr> cp_work_hash = wh, cp_work_title = wt, cp_author = au, cp_copyright_type = ct,
                cp_rights_scope = (case rights_scope d of None \<Rightarrow> DEFAULT_RIGHTS_SCOPE
                                   | Some r \<Rightarrow> if r = [] then DEFAULT_RIGHTS_SCOPE else r),
                cp_parent_utxo = get_parent_utxo d,
                cp_metadata = (case p_metadata d of None \<Rightarrow> [] | Some m \<Rightarrow> m),
                cp_created_at = (case created_at d of None \<Rightarrow> now | Some t \<Rightarrow> t) \<rparr>
      | _ \<Rightarrow> Inl KeyError)"

definition get_end_time :: "copyright_payload \<Rightarrow> int" where
  "get_end_time p = py_int (cp_created_at p) + AUTHORIZATION_DURATION_SECONDS"

text \<open>\<open>is_expired()\<close> is only called without an argument: \<open>current_time = int(time.time())\<close>.\<close>

definition is_expired :: "copyright_payload \<Rightarrow> real \<Rightarrow> bool" where
  "is_expired p now = (py_int now \<ge> get_end_time p)"

section \<open>transaction.py and cpc_miner.py: the data model\<close>

record tx_input =
  i_txid :: string
  i_vout :: int
  i_signature :: "string option"
  i_public_key :: "string option"
  i_signatures :: "(string \<times> string) list"
  i_required_signers :: "string list"

record tx_output =
  o_amount :: real
  o_address :: string
  o_script_pubkey :: string
  o_utxo_type :: string
  o_payload :: payload

record transaction =
  inputs :: "tx_input list"
  outputs :: "tx_output list"
  tx_type :: string
  metadata :: "(string \<times> json) list"
  timestamp :: real
  txid :: string

definition TYPE_FAUCET :: string where "TYPE_FAUCET = ''faucet''"
definition TYPE_COPYRIGHT_REG :: string where "TYPE_COPYRIGHT_REG = ''copyright_register''"
definition TYPE_AUTH_LOCK :: string where "TYPE_AUTH_LOCK = ''authorization_lock''"
definition TYPE_AUTH_ACTIVATE :: string where "TYPE_AUTH_ACTIVATE = ''authorization_activate''"
definition TYPE_RENEWAL :: string where "TYPE_RENEWAL = ''renewal''"
definition TYPE_REDEMPTION :: string where "TYPE_REDEMPTION = ''redemption''"
definition TYPE_SUB_LICENSE :: string where "TYPE_SUB_LICENSE = ''sub_license''"

text \<open>Class \<open>CPCBlock\<close>.\<close>

record block =
  b_index :: int
  b_timestamp :: real
  b_transactions :: "transaction list"
  b_previous_hash :: string
  b_nonce :: int
  b_hash :: string

section \<open>utxo.py: TimeLockScript\<close>

record script =
  script_type :: string
  addresses :: "string list"
  required_sig_num :: int
  time_lock :: "int option"

text \<open>
  \<open>can_spend\<close>. The validator passes \<open>[inp.public_key]\<close> as signers, which may hold
  \<open>None\<close>; \<open>None\<close> is in no address list. \<open>if end_time and ...\<close> and
  \<open>if self.time_lock and ...\<close> test truth values, so \<open>0\<close> counts as absent.
\<close>

definition can_spend :: "script \<Rightarrow> int \<Rightarrow> string option list \<Rightarrow> int option \<Rightarrow> bool" where
  "can_spend s current_time signers end_time =
     (if (case end_time of None \<Rightarrow> False | Some e \<Rightarrow> e \<noteq> 0 \<and> current_time \<ge> e) then False
      else if (case time_lock s of None \<Rightarrow> False | Some l \<Rightarrow> l \<noteq> 0 \<and> current_time < l)
      then False
      else (let valid_signers =
                  filter (\<lambda>x. case x of None \<Rightarrow> False | Some a \<Rightarrow> a \<in> set (addresses s))
                    signers
            in int (length valid_signers) \<ge> required_sig_num s))"

definition to_string :: "script \<Rightarrow> string" where
  "to_string s =
     (let parts = [script_type s];
          parts = (if int_truthy (time_lock s)
                   then parts @ [''CHECKLOCKTIMEVERIFY:'' @ str_int (the (time_lock s))]
                   else parts);
          parts = (if required_sig_num s > 1
                   then parts @ [''MULTISIG:'' @ str_int (required_sig_num s) @ '':''
                                   @ str_int (int (length (addresses s)))]
                   else parts);
          parts = parts @ addresses s
      in join_with CHR ''|'' parts)"

text \<open>
  The loop of \<open>from_string\<close> over \<open>parts[1:]\<close>, on the variables \<open>time_lock\<close>,
  \<open>required_sig_num\<close> and \<open>addresses\<close>. The unpacking \<open>_, req, total = part.split(":")\<close>
  raises \<open>ValueError\<close> unless there are exactly three fields.
\<close>

fun parse_parts :: "string list \<Rightarrow> int option \<Rightarrow> int \<Rightarrow> string list
                      \<Rightarrow> error + (int option \<times> int \<times> string list)" where
  "parse_parts [] lock rs addrs = Inr (lock, rs, addrs)"
| "parse_parts (part # rest) lock rs addrs =
     (if startswith part ''CHECKLOCKTIMEVERIFY:'' then
        (case split_on CHR '':'' part of
           _ # x # _ \<Rightarrow> ebind (py_int_of_str x) (\<lambda>t. parse_parts rest (Some t) rs addrs)
         | _ \<Rightarrow> Inl IndexError)
      else if startswith part ''MULTISIG:'' then
        (case split_on CHR '':'' part of
           [_, req, _] \<Rightarrow> ebind (py_int_of_str req) (\<lambda>r. parse_parts rest lock r addrs)
         | _ \<Rightarrow> Inl ValueError)
      else parse_parts rest lock rs (addrs @ [part]))"

definition from_string :: "string \<Rightarrow> error + script" where
  "from_string script_str =
     (case split_on CHR ''|'' script_str of
        [] \<Rightarrow> Inl IndexError
      | st # rest \<Rightarrow>
          ebind (parse_parts rest None 1 [])
            (\<lambda>(lock, rs, addrs). Inr \<lparr> script_type = st, addresses = addrs,
                                       required_sig_num = rs, time_lock = lock \<rparr>))"

section \<open>utxo.py: BlockchainUTXOManager\<close>

type_synonym utxo_dict = "(string \<times> utxo) list"

text \<open>The body of the loop over \<open>tx.inputs\<close>: a guarded \<open>del\<close>.\<close>

definition consume_input :: "utxo_dict \<Rightarrow> tx_input \<Rightarrow> error + utxo_dict" where
  "consume_input utxos inp =
     (let identifier = identifier_of (i_txid inp) (i_vout inp)
      in if dict_contains utxos identifier then dict_delitem utxos identifier else Inr utxos)"

fun consume_inputs :: "utxo_dict \<Rightarrow> tx_input list \<Rightarrow> error + utxo_dict" where
  "consume_inputs utxos [] = Inr utxos"
| "consume_inputs utxos (inp # rest) =
     ebind (consume_input utxos inp) (\<lambda>utxos'. consume_inputs utxos' rest)"

text \<open>The body of the loop over \<open>enumerate(tx.outputs)\<close>.\<close>

definition make_utxo :: "string \<Rightarrow> int \<Rightarrow> tx_output \<Rightarrow> utxo" where
  "make_utxo t v out = \<lparr> u_txid = t, u_vout = v, u_amount = o_amount out,
     u_address = o_address out, u_script_pubkey = o_script_pubkey out,
     u_utxo_type = o_utxo_type out, u_payload = o_payload out \<rparr>"

fun create_outputs :: "utxo_dict \<Rightarrow> string \<Rightarrow> int \<Rightarrow> tx_output list \<Rightarrow> utxo_dict" where
  "create_outputs utxos t v [] = utxos"
| "create_outputs utxos t v (out # rest) =
     (let u = make_utxo t v out
      in create_outputs (dict_setitem utxos (get_identifier u) u) t (v + 1) rest)"

definition scan_transaction :: "utxo_dict \<Rightarrow> transaction \<Rightarrow> error + utxo_dict" where
  "scan_transaction utxos tx =
     ebind (consume_inputs utxos (inputs tx))
       (\<lambda>utxos'. Inr (create_outputs utxos' (txid tx) 0 (outputs tx)))"

fun scan_transactions :: "utxo_dict \<Rightarrow> transaction list \<Rightarrow> error + utxo_dict" where
  "scan_transactions utxos [] = Inr utxos"
| "scan_transactions utxos (tx # rest) =
     ebind (scan_transaction utxos tx) (\<lambda>utxos'. scan_transactions utxos' rest)"

text \<open>\<open>if start_time and block.timestamp < start_time: continue\<close>; \<open>0\<close> is false.\<close>

definition skips_block :: "int option \<Rightarrow> block \<Rightarrow> bool" where
  "skips_block start_time b =
     (case start_time of None \<Rightarrow> False
      | Some s \<Rightarrow> s \<noteq> 0 \<and> b_timestamp b < real_of_int s)"

fun scan_blocks :: "utxo_dict \<Rightarrow> block list \<Rightarrow> int option \<Rightarrow> error + utxo_dict" where
  "scan_blocks utxos [] start_time = Inr utxos"
| "scan_blocks utxos (b # rest) start_time =
     (if skips_block start_time b then scan_blocks utxos rest start_time
      else ebind (scan_transactions utxos (b_transactions b))
             (\<lambda>utxos'. scan_blocks utxos' rest start_time))"

definition scan_blockchain :: "block list \<Rightarrow> int option \<Rightarrow> error + utxo_dict" where
  "scan_blockchain blockchain start_time = scan_blocks [] blockchain start_time"

text \<open>
  The queries read the clock once, for the start of the scan window; \<open>now\<close> is that
  reading of \<open>time.time()\<close>.
\<close>

definition window_start :: "real \<Rightarrow> int \<Rightarrow> int" where
  "window_start now scan_months = py_int now - scan_months * 30 * 24 * 3600"

definition get_utxo :: "block list \<Rightarrow> real \<Rightarrow> string \<Rightarrow> int \<Rightarrow> int \<Rightarrow> error + utxo option" where
  "get_utxo blockchain now t v scan_months =
     ebind (scan_blockchain blockchain (Some (window_start now scan_months)))
       (\<lambda>utxos. Inr (dict_get utxos (identifier_of t v)))"

definition get_utxos_by_address :: "block list \<Rightarrow> real \<Rightarrow> string \<Rightarrow> int \<Rightarrow> error + utxo list" where
  "get_utxos_by_address blockchain now addr scan_months =
     ebind (scan_blockchain blockchain (Some (window_start now scan_months)))
       (\<lambda>utxos. Inr (filter (\<lambda>u. u_address u = addr) (map snd utxos)))"

definition get_balance :: "block list \<Rightarrow> real \<Rightarrow> string \<Rightarrow> int \<Rightarrow> error + real" where
  "get_balance blockchain now addr scan_months =
     ebind (get_utxos_by_address blockchain now addr scan_months)
       (\<lambda>utxos. Inr (sum_list (map u_amount utxos)))"

text \<open>
  The same three queries over a full scan from genesis
  (\<open>scan_blockchain(start_time=None)\<close>), to compare the windowed ones with.
\<close>

definition full_get_utxo :: "block list \<Rightarrow> string \<Rightarrow> int \<Rightarrow> error + utxo option" where
  "full_get_utxo blockchain t v =
     ebind (scan_blockchain blockchain None)
       (\<lambda>utxos. Inr (dict_get utxos (identifier_of t v)))"

definition full_get_utxos_by_address :: "block list \<Rightarrow> string \<Rightarrow> error + utxo list" where
  "full_get_utxos_by_address blockchain addr =
     ebind (scan_blockchain blockchain None)
       (\<lambda>utxos. Inr (filter (\<lambda>u. u_address u = addr) (map snd utxos)))"

definition full_get_balance :: "block list \<Rightarrow> string \<Rightarrow> error + real" where
  "full_get_balance blockchain addr =
     ebind (full_get_utxos_by_address blockchain addr)
       (\<lambda>utxos. Inr (sum_list (map u_amount utxos)))"










section \<open>transaction.py: TransactionInput, TransactionOutput, Transaction\<close>

definition input_add_signature :: "tx_input \<Rightarrow> string \<Rightarrow> string \<Rightarrow> tx_input" where
  "input_add_signature inp address signature =
     inp \<lparr> i_signatures := dict_setitem (i_signatures inp) address signature \<rparr>"

definition input_is_fully_signed :: "tx_input \<Rightarrow> bool" where
  "input_is_fully_signed inp =
     list_all (\<lambda>signer. dict_contains (i_signatures inp) signer) (i_required_signers inp)"

definition input_get_unsigned_signers :: "tx_input \<Rightarrow> string list" where
  "input_get_unsigned_signers inp =
     filter (\<lambda>signer. \<not> dict_contains (i_signatures inp) signer) (i_required_signers inp)"

definition input_to_dict :: "tx_input \<Rightarrow> json" where
  "input_to_dict inp = JDict
     [(''txid'', JStr (i_txid inp)),
      (''vout'', JInt (i_vout inp)),
      (''signature'', json_opt_str (i_signature inp)),
      (''public_key'', json_opt_str (i_public_key inp)),
      (''signatures'', JDict (map (\<lambda>(a, s). (a, JStr s)) (i_signatures inp))),
      (''required_signers'', JList (map JStr (i_required_signers inp)))]"

definition output_to_dict :: "tx_output \<Rightarrow> json" where
  "output_to_dict out = JDict
     [(''amount'', JNum (o_amount out)),
      (''address'', JStr (o_address out)),
      (''script_pubkey'', JStr (o_script_pubkey out)),
      (''utxo_type'', JStr (o_utxo_type out)),
      (''payload'', payload_to_json (o_payload out))]"

text \<open>The dict \<open>tx_data\<close> that \<open>calculate_txid\<close> serialises and hashes.\<close>

definition tx_data :: "transaction \<Rightarrow> json" where
  "tx_data tx = JDict
     [(''inputs'', JList (map input_to_dict (inputs tx))),
      (''outputs'', JList (map output_to_dict (outputs tx))),
      (''tx_type'', JStr (tx_type tx)),
      (''timestamp'', JNum (timestamp tx)),
      (''metadata'', JDict (metadata tx))]"

definition calculate_txid :: "(json \<Rightarrow> string) \<Rightarrow> transaction \<Rightarrow> string" where
  "calculate_txid sha256_json tx = sha256_json (tx_data tx)"

definition tx_to_dict :: "transaction \<Rightarrow> json" where
  "tx_to_dict tx = JDict
     [(''txid'', JStr (txid tx)),
      (''inputs'', JList (map input_to_dict (inputs tx))),
      (''outputs'', JList (map output_to_dict (outputs tx))),
      (''tx_type'', JStr (tx_type tx)),
      (''timestamp'', JNum (timestamp tx)),
      (''metadata'', JDict (metadata tx))]"

text \<open>The constructor: \<open>timestamp\<close> is the reading \<open>t\<close> of the clock.\<close>

definition Transaction :: "(json \<Rightarrow> string) \<Rightarrow> real \<Rightarrow> tx_input list \<Rightarrow> tx_output list \<Rightarrow> string
                             \<Rightarrow> (string \<times> json) list \<Rightarrow> transaction" where
  "Transaction sha256_json t ins outs ty md =
     (let tx = \<lparr> inputs = ins, outputs = outs, tx_type = ty, metadata = md,
                  timestamp = t, txid = [] \<rparr>
      in tx \<lparr> txid := calculate_txid sha256_json tx \<rparr>)"

definition is_fully_signed :: "transaction \<Rightarrow> bool" where
  "is_fully_signed tx =
     list_all input_is_fully_signed (filter (\<lambda>inp. i_required_signers inp \<noteq> []) (inputs tx))"

fun unsigned_from :: "nat \<Rightarrow> tx_input list \<Rightarrow> (nat \<times> string list) list" where
  "unsigned_from i [] = []"
| "unsigned_from i (inp # rest) =
     (if i_required_signers inp \<noteq> [] \<and> input_get_unsigned_signers inp \<noteq> []
      then (i, input_get_unsigned_signers inp) # unsigned_from (i + 1) rest
      else unsigned_from (i + 1) rest)"

definition get_unsigned_signers :: "transaction \<Rightarrow> (nat \<times> string list) list" where
  "get_unsigned_signers tx = unsigned_from 0 (inputs tx)"

text \<open>
  \<open>Transaction.add_signature\<close>. The guard is \<open>input_index < len(self.inputs)\<close> only, so
  a negative index passes it and indexes from the end, or raises \<open>IndexError\<close>.
\<close>

definition add_signature :: "(json \<Rightarrow> string) \<Rightarrow> transaction \<Rightarrow> int \<Rightarrow> string \<Rightarrow> string
                               \<Rightarrow> error + transaction" where
  "add_signature sha256_json tx input_index signer_address signature =
     (let n = int (length (inputs tx))
      in if input_index < n then
           (let j = (if input_index < 0 then n + input_index else input_index)
            in if j < 0 then Inl IndexError
               else (let tx' = tx \<lparr> inputs := (inputs tx)
                                 [nat j := input_add_signature (inputs tx ! nat j)
                                             signer_address signature] \<rparr>
                     in Inr (tx' \<lparr> txid := calculate_txid sha256_json tx' \<rparr>)))
         else Inr tx)"

text \<open>
  cpc_wallet.py signs another way (\<open>lock_authorization\<close>, \<open>sign_pending_transaction\<close>):
  it signs \<open>tx.txid\<close> and calls \<open>TransactionInput.add_signature\<close> on every input that
  lists the wallet's address among its required signers. The txid is not touched.
\<close>

definition wallet_signed :: "transaction \<Rightarrow> string \<Rightarrow> string \<Rightarrow> transaction" where
  "wallet_signed tx address signature =
     tx \<lparr> inputs := map (\<lambda>inp. if address \<in> set (i_required_signers inp)
                                  then input_add_signature inp address signature else inp)
                        (inputs tx) \<rparr>"

section \<open>transaction.py: TransactionValidator\<close>

text \<open>
  The validator returns a pair \<open>(is_valid, message)\<close>. The messages are Chinese texts with
  interpolated values; the model keeps one constructor for each message.
\<close>

datatype msg =
    No_message
  | Not_fully_signed "(nat \<times> string list) list"
  | Utxo_missing string int
  | Signature_invalid string int
  | Lock_not_satisfied string int
  | Outputs_exceed_inputs real real
  | Transaction_ok
  | Faucet_has_inputs
  | Faucet_over_limit
  | Faucet_ok
  | Register_no_inputs
  | Register_no_copyright_output
  | Register_no_work_hash
  | Register_not_sovereignty
  | Register_ok
  | Cannot_remint string
  | Illegal_transition string "string option"
  | Lock_no_sovereignty_input
  | Lock_no_instruction_output
  | Lock_remint_failed msg
  | Lock_ok
  | Activate_expired
  | Activate_no_instruction_input
  | Activate_no_proof_output
  | Activate_work_hash_differs
  | Activate_ok
  | Renewal_expired
  | Renewal_no_proof_input
  | Renewal_no_proof_output
  | Renewal_ok
  | Sub_no_proof_input
  | Sub_no_c1_output
  | Sub_no_c2_output
  | Sub_c1_failed msg
  | Sub_c2_failed msg
  | Sub_rights_not_subset
  | Sub_ok
  | Address_changed string string string

text \<open>A loop \<open>for x in xs: if bad(x): return False, message\<close>: the first failure, if any.\<close>

fun first_failure :: "('a \<Rightarrow> msg option) \<Rightarrow> 'a list \<Rightarrow> msg option" where
  "first_failure f [] = None"
| "first_failure f (x # xs) = (case f x of Some m \<Rightarrow> Some m | None \<Rightarrow> first_failure f xs)"

definition COPYRIGHT_STATE_MACHINE :: "(string \<times> string list) list" where
  "COPYRIGHT_STATE_MACHINE =
     [(''sovereignty'', [''instruction'']),
      (''instruction'', [''proof'']),
      (''proof'', [''proof'', ''secondary'']),
      (''secondary'', [])]"

text \<open>
  The output type is read with \<open>out.payload.get("copyright_type")\<close> at every call, so it
  is optional.
\<close>

definition validate_copyright_state_transition :: "string \<Rightarrow> string option \<Rightarrow> bool \<times> msg" where
  "validate_copyright_state_transition input_copyright_type output_copyright_type =
     (if Some input_copyright_type = output_copyright_type then
        (if input_copyright_type \<in> set [''sovereignty'', ''proof''] then (True, No_message)
         else (False, Cannot_remint input_copyright_type))
      else
        (let allowed_transitions =
               (case dict_get COPYRIGHT_STATE_MACHINE input_copyright_type of
                  None \<Rightarrow> [] | Some l \<Rightarrow> l)
         in if (case output_copyright_type of None \<Rightarrow> True
                | Some ot \<Rightarrow> ot \<notin> set allowed_transitions)
            then (False, Illegal_transition input_copyright_type output_copyright_type)
            else (True, No_message)))"

definition is_copyright_output :: "string \<Rightarrow> tx_output \<Rightarrow> bool" where
  "is_copyright_output ctype out =
     (o_utxo_type out = ''copyright'' \<and> copyright_type (o_payload out) = Some ctype)"

text \<open>
  The loops over the inputs that look each one up with \<open>get_utxo(..., scan_months=3)\<close> and
  test \<open>utxo and utxo.utxo_type == "copyright"\<close> and
  \<open>payload.get("copyright_type") == ctype\<close>. \<open>find_input_payload\<close> is the loop that stops
  at the first such input (\<open>break\<close>) and keeps its payload; \<open>collect_addresses\<close> is the
  loop that stores \<open>d[payload.get("work_hash")] = utxo.address\<close> for each of them.
\<close>

fun find_input_payload :: "block list \<Rightarrow> real \<Rightarrow> string \<Rightarrow> tx_input list
                             \<Rightarrow> error + payload option" where
  "find_input_payload chain now ctype [] = Inr None"
| "find_input_payload chain now ctype (inp # rest) =
     ebind (get_utxo chain now (i_txid inp) (i_vout inp) 3)
       (\<lambda>r. case r of
               None \<Rightarrow> find_input_payload chain now ctype rest
             | Some u \<Rightarrow>
                 if u_utxo_type u = ''copyright'' \<and> copyright_type (u_payload u) = Some ctype
                 then Inr (Some (u_payload u))
                 else find_input_payload chain now ctype rest)"

fun collect_addresses :: "block list \<Rightarrow> real \<Rightarrow> string \<Rightarrow> tx_input list
                            \<Rightarrow> (string option \<times> string) list
                            \<Rightarrow> error + (string option \<times> string) list" where
  "collect_addresses chain now ctype [] d = Inr d"
| "collect_addresses chain now ctype (inp # rest) d =
     ebind (get_utxo chain now (i_txid inp) (i_vout inp) 3)
       (\<lambda>r. case r of
               None \<Rightarrow> collect_addresses chain now ctype rest d
             | Some u \<Rightarrow>
                 if u_utxo_type u = ''copyright'' \<and> copyright_type (u_payload u) = Some ctype
                 then collect_addresses chain now ctype rest
                        (dict_setitem d (work_hash (u_payload u)) (u_address u))
                 else collect_addresses chain now ctype rest d)"

text \<open>
  The test on one output in \<open>_validate_address_ownership\<close>: a copyright output of type
  \<open>ctype\<close> whose \<open>work_hash\<close> is a key of \<open>d\<close> must keep the recorded address.
\<close>

definition address_violation :: "string \<Rightarrow> (string option \<times> string) list \<Rightarrow> tx_output
                                   \<Rightarrow> msg option" where
  "address_violation ctype d out =
     (if is_copyright_output ctype out then
        (case dict_get d (work_hash (o_payload out)) of
           None \<Rightarrow> None
         | Some a \<Rightarrow> if o_address out \<noteq> a then Some (Address_changed ctype a (o_address out))
                     else None)
      else None)"

text \<open>
  In the renewal branch one loop fills both dicts under \<open>if ... elif\<close> with exclusive
  tests, and one loop over the outputs tests each output against the dict of its type.
\<close>

definition validate_address_ownership :: "block list \<Rightarrow> real \<Rightarrow> string \<Rightarrow> tx_input list
                                            \<Rightarrow> tx_output list \<Rightarrow> error + (bool \<times> msg)" where
  "validate_address_ownership chain now ty ins outs =
     (if ty = TYPE_AUTH_LOCK then
        ebind (collect_addresses chain now ''sovereignty'' ins [])
          (\<lambda>sovereignty_inputs.
             case first_failure (address_violation ''sovereignty'' sovereignty_inputs) outs of
               Some m \<Rightarrow> Inr (False, m) | None \<Rightarrow> Inr (True, No_message))
      else if ty = TYPE_RENEWAL then
        ebind (collect_addresses chain now ''sovereignty'' ins [])
          (\<lambda>sovereignty_inputs.
        ebind (collect_addresses chain now ''proof'' ins [])
          (\<lambda>proof_inputs.
             case first_failure
                    (\<lambda>out. case address_violation ''sovereignty'' sovereignty_inputs out of
                              Some m \<Rightarrow> Some m
                            | None \<Rightarrow> address_violation ''proof'' proof_inputs out) outs of
               Some m \<Rightarrow> Inr (False, m) | None \<Rightarrow> Inr (True, No_message)))
      else if ty = TYPE_SUB_LICENSE then
        ebind (collect_addresses chain now ''proof'' ins [])
          (\<lambda>proof_inputs.
             case first_failure
                    (\<lambda>out. if str_truthy (get_parent_utxo (o_payload out)) then None
                            else address_violation ''proof'' proof_inputs out) outs of
               Some m \<Rightarrow> Inr (False, m) | None \<Rightarrow> Inr (True, No_message))
      else if ty = TYPE_AUTH_ACTIVATE then
        ebind (collect_addresses chain now ''instruction'' ins [])
          (\<lambda>instruction_inputs.
             case first_failure (address_violation ''proof'' instruction_inputs) outs of
               Some m \<Rightarrow> Inr (False, m) | None \<Rightarrow> Inr (True, No_message))
      else Inr (True, No_message))"

definition validate_faucet_transaction :: "transaction \<Rightarrow> bool \<times> msg" where
  "validate_faucet_transaction tx =
     (if length (inputs tx) \<noteq> 0 then (False, Faucet_has_inputs)
      else if sum_list (map o_amount (outputs tx)) > 10 then (False, Faucet_over_limit)
      else (True, Faucet_ok))"

definition validate_copyright_register :: "transaction \<Rightarrow> bool \<times> msg" where
  "validate_copyright_register tx =
     (if length (inputs tx) = 0 then (False, Register_no_inputs)
      else (let copyright_outputs = filter (\<lambda>out. o_utxo_type out = ''copyright'') (outputs tx)
            in if length copyright_outputs = 0 then (False, Register_no_copyright_output)
               else (case first_failure
                            (\<lambda>out. if work_hash (o_payload out) = None
                                    then Some Register_no_work_hash
                                    else if copyright_type (o_payload out) \<noteq> Some ''sovereignty''
                                    then Some Register_not_sovereignty else None)
                            copyright_outputs of
                       Some m \<Rightarrow> (False, m)
                     | None \<Rightarrow> (True, Register_ok))))"

text \<open>The state-machine loops: \<open>validate(input_type, out.payload.get("copyright_type"))\<close>
  for each output of a list.\<close>

definition transition_failure :: "string \<Rightarrow> tx_output \<Rightarrow> msg option" where
  "transition_failure input_type out =
     (case validate_copyright_state_transition input_type (copyright_type (o_payload out)) of
        (True, _) \<Rightarrow> None | (False, m) \<Rightarrow> Some m)"

definition validate_authorization_lock :: "block list \<Rightarrow> real \<Rightarrow> transaction
                                             \<Rightarrow> error + (bool \<times> msg)" where
  "validate_authorization_lock chain now tx =
     ebind (find_input_payload chain now ''sovereignty'' (inputs tx))
       (\<lambda>found. case found of
          None \<Rightarrow> Inr (False, Lock_no_sovereignty_input)
        | Some payload \<Rightarrow>
            (let sovereignty_input = ''sovereignty'';
                 instruction_outputs = filter (is_copyright_output ''instruction'') (outputs tx);
                 sovereignty_outputs = filter (is_copyright_output ''sovereignty'') (outputs tx)
             in if length instruction_outputs = 0 then Inr (False, Lock_no_instruction_output)
                else (case first_failure (transition_failure sovereignty_input)
                             instruction_outputs of
                        Some m \<Rightarrow> Inr (False, m)
                      | None \<Rightarrow>
                         (case first_failure (transition_failure sovereignty_input)
                                 sovereignty_outputs of
                            Some m \<Rightarrow> Inr (False, Lock_remint_failed m)
                          | None \<Rightarrow> Inr (True, Lock_ok)))))"

definition validate_authorization_activate :: "block list \<Rightarrow> real \<Rightarrow> transaction
                                                 \<Rightarrow> error + (bool \<times> msg)" where
  "validate_authorization_activate chain now tx =
     ebind (find_input_payload chain now ''instruction'' (inputs tx))
       (\<lambda>found. case found of
          None \<Rightarrow> Inr (False, Activate_no_instruction_input)
        | Some payload \<Rightarrow>
            ebind (payload_from_dict now payload)
              (\<lambda>instruction_payload.
                 if is_expired instruction_payload now then Inr (False, Activate_expired)
                 else (let instruction_input = ''instruction'';
                           wh = work_hash payload;
                           proof_outputs = filter (is_copyright_output ''proof'') (outputs tx)
                       in if length proof_outputs = 0 then Inr (False, Activate_no_proof_output)
                          else (case first_failure
                                       (\<lambda>out. case transition_failure instruction_input out of
                                                 Some m \<Rightarrow> Some m
                                               | None \<Rightarrow>
                                                   if work_hash (o_payload out) \<noteq> wh
                                                   then Some Activate_work_hash_differs
                                                   else None)
                                       proof_outputs of
                                  Some m \<Rightarrow> Inr (False, m)
                                | None \<Rightarrow> Inr (True, Activate_ok)))))"

definition validate_renewal :: "block list \<Rightarrow> real \<Rightarrow> transaction \<Rightarrow> error + (bool \<times> msg)" where
  "validate_renewal chain now tx =
     ebind (find_input_payload chain now ''proof'' (inputs tx))
       (\<lambda>found. case found of
          None \<Rightarrow> Inr (False, Renewal_no_proof_input)
        | Some payload \<Rightarrow>
            ebind (payload_from_dict now payload)
              (\<lambda>copyright_payload.
                 if is_expired copyright_payload now then Inr (False, Renewal_expired)
                 else (let proof_input = ''proof'';
                           new_proof_outputs = filter (is_copyright_output ''proof'') (outputs tx)
                       in if length new_proof_outputs = 0
                          then Inr (False, Renewal_no_proof_output)
                          else (case first_failure (transition_failure proof_input)
                                       new_proof_outputs of
                                  Some m \<Rightarrow> Inr (False, m)
                                | None \<Rightarrow> Inr (True, Renewal_ok)))))"

text \<open>
  \<open>_validate_sub_license\<close>. \<open>c1_outputs\<close> are the copyright outputs of type proof with
  no (or an empty) \<open>parent_utxo\<close>, \<open>c2_outputs\<close> the copyright outputs of type secondary.
  The rights are compared as sets.
\<close>

definition c1_outputs_of :: "transaction \<Rightarrow> tx_output list" where
  "c1_outputs_of tx =
     filter (\<lambda>out. is_copyright_output ''proof'' out
                    \<and> \<not> str_truthy (get_parent_utxo (o_payload out))) (outputs tx)"

definition c2_outputs_of :: "transaction \<Rightarrow> tx_output list" where
  "c2_outputs_of tx = filter (is_copyright_output ''secondary'') (outputs tx)"

definition validate_sub_license :: "block list \<Rightarrow> real \<Rightarrow> transaction \<Rightarrow> error + (bool \<times> msg)" where
  "validate_sub_license chain now tx =
     ebind (find_input_payload chain now ''proof'' (inputs tx))
       (\<lambda>found. case found of
          None \<Rightarrow> Inr (False, Sub_no_proof_input)
        | Some c1_proof_payload \<Rightarrow>
            (let c1_proof_input = ''proof'';
                 c1_outputs = c1_outputs_of tx;
                 c2_outputs = c2_outputs_of tx
             in if length c1_outputs = 0 then Inr (False, Sub_no_c1_output)
                else if length c2_outputs = 0 then Inr (False, Sub_no_c2_output)
                else (case first_failure (transition_failure c1_proof_input) c1_outputs of
                        Some m \<Rightarrow> Inr (False, Sub_c1_failed m)
                      | None \<Rightarrow>
                         (case first_failure (transition_failure c1_proof_input) c2_outputs of
                            Some m \<Rightarrow> Inr (False, Sub_c2_failed m)
                          | None \<Rightarrow>
                             (let c1_rights = set (get_rights_scope c1_proof_payload)
                              in case first_failure
                                        (\<lambda>c2_out.
                                           if \<not> set (get_rights_scope (o_payload c2_out))
                                                  \<subseteq> c1_rights
                                           then Some Sub_rights_not_subset else None)
                                        c2_outputs of
                                   Some m \<Rightarrow> Inr (False, m)
                                 | None \<Rightarrow> Inr (True, Sub_ok))))))"

text \<open>
  \<open>_verify_single_signature\<close> decodes the key and the signature and verifies the
  signature over \<open>transaction.txid\<close>; any exception gives \<open>False\<close>. The parameter
  \<open>ecdsa signer signature message\<close> stands for all of that.
\<close>

definition verify_single_signature :: "(string \<Rightarrow> string \<Rightarrow> string \<Rightarrow> bool) \<Rightarrow> string \<Rightarrow> string
                                         \<Rightarrow> transaction \<Rightarrow> bool" where
  "verify_single_signature ecdsa signer_address signature_str tx =
     ecdsa signer_address signature_str (txid tx)"

definition public_key_to_address :: "string option \<Rightarrow> string option" where
  "public_key_to_address public_key = public_key"

text \<open>\<open>_verify_signature\<close>: the body runs under \<open>try\<close>, and an exception gives \<open>False\<close>.\<close>

definition verify_signature :: "(string \<Rightarrow> string \<Rightarrow> string \<Rightarrow> bool) \<Rightarrow> block list \<Rightarrow> real
                                  \<Rightarrow> tx_input \<Rightarrow> transaction \<Rightarrow> bool" where
  "verify_signature ecdsa chain now inp tx =
     (case get_utxo chain now (i_txid inp) (i_vout inp) 3 of
        Inl e \<Rightarrow> False
      | Inr None \<Rightarrow> False
      | Inr (Some u) \<Rightarrow>
          if i_signatures inp \<noteq> [] then
            (if \<not> list_all (\<lambda>(signer_address, signature_str).
                              verify_single_signature ecdsa signer_address signature_str tx)
                     (i_signatures inp)
             then False
             else if \<not> input_is_fully_signed inp then False
             else True)
          else if \<not> str_truthy (i_public_key inp) \<or> \<not> str_truthy (i_signature inp) then False
          else (let address = public_key_to_address (i_public_key inp)
                in if address \<noteq> Some (u_address u) then False
                   else verify_single_signature ecdsa (the address) (the (i_signature inp)) tx))"

text \<open>
  The loop of \<open>validate_transaction\<close> over the inputs. It returns early with a message, or
  ends with the accumulated \<open>input_amount\<close>. \<open>now\<close> is the clock reading of the validation.
\<close>

fun validate_inputs :: "(string \<Rightarrow> string \<Rightarrow> string \<Rightarrow> bool) \<Rightarrow> block list \<Rightarrow> real \<Rightarrow> transaction
                          \<Rightarrow> tx_input list \<Rightarrow> real \<Rightarrow> error + (msg + real)" where
  "validate_inputs ecdsa chain now tx [] input_amount = Inr (Inr input_amount)"
| "validate_inputs ecdsa chain now tx (inp # rest) input_amount =
     ebind (get_utxo chain now (i_txid inp) (i_vout inp) 3)
       (\<lambda>r. case r of
          None \<Rightarrow> Inr (Inl (Utxo_missing (i_txid inp) (i_vout inp)))
        | Some u \<Rightarrow>
            if \<not> verify_signature ecdsa chain now inp tx
            then Inr (Inl (Signature_invalid (i_txid inp) (i_vout inp)))
            else
              ebind (from_string (u_script_pubkey u))
                (\<lambda>script.
                   let address = public_key_to_address (i_public_key inp)
                   in ebind (if u_utxo_type u = ''copyright'' \<and> payload_truthy (u_payload u)
                             then ebind (payload_from_dict now (u_payload u))
                                    (\<lambda>payload. Inr (Some (get_end_time payload)))
                             else Inr None)
                        (\<lambda>end_time.
                           if \<not> can_spend script (py_int now) [address] end_time
                           then Inr (Inl (Lock_not_satisfied (i_txid inp) (i_vout inp)))
                           else validate_inputs ecdsa chain now tx rest
                                  (input_amount + u_amount u))))"

text \<open>Step 5 of \<open>validate_transaction\<close>: the type-specific check, then the address check.\<close>

definition validate_by_type :: "block list \<Rightarrow> real \<Rightarrow> transaction \<Rightarrow> error + (bool \<times> msg)" where
  "validate_by_type chain now tx =
     (let specific =
            (if tx_type tx = TYPE_AUTH_LOCK then Some (validate_authorization_lock chain now tx)
             else if tx_type tx = TYPE_AUTH_ACTIVATE
             then Some (validate_authorization_activate chain now tx)
             else if tx_type tx = TYPE_RENEWAL then Some (validate_renewal chain now tx)
             else if tx_type tx = TYPE_SUB_LICENSE then Some (validate_sub_license chain now tx)
             else None)
      in case specific of
           None \<Rightarrow> Inr (True, Transaction_ok)
         | Some check \<Rightarrow>
             ebind check
               (\<lambda>(is_valid, error_msg).
                  if \<not> is_valid then Inr (False, error_msg)
                  else ebind (validate_address_ownership chain now (tx_type tx)
                                (inputs tx) (outputs tx))
                         (\<lambda>(is_valid, error_msg).
                            if \<not> is_valid then Inr (False, error_msg)
                            else Inr (True, Transaction_ok))))"

definition validate_transaction :: "(string \<Rightarrow> string \<Rightarrow> string \<Rightarrow> bool) \<Rightarrow> block list \<Rightarrow> real
                                      \<Rightarrow> transaction \<Rightarrow> error + (bool \<times> msg)" where
  "validate_transaction ecdsa chain now tx =
     (if \<not> is_fully_signed tx \<and> get_unsigned_signers tx \<noteq> []
      then Inr (False, Not_fully_signed (get_unsigned_signers tx))
      else if tx_type tx = TYPE_FAUCET then Inr (validate_faucet_transaction tx)
      else if tx_type tx = TYPE_COPYRIGHT_REG then Inr (validate_copyright_register tx)
      else
        ebind (validate_inputs ecdsa chain now tx (inputs tx) 0)
          (\<lambda>r. case r of
             Inl m \<Rightarrow> Inr (False, m)
           | Inr input_amount \<Rightarrow>
               (let output_amount = sum_list (map o_amount (outputs tx))
                in if output_amount > input_amount
                   then Inr (False, Outputs_exceed_inputs output_amount input_amount)
                   else validate_by_type chain now tx)))"

section \<open>cpc_miner.py: blocks, proof of work and the miner\<close>

definition MINER_ADDRESS :: string where
  "MINER_ADDRESS = ''your-miner-wallet-address-here''"

text \<open>The dict \<open>block_data\<close> that \<open>calculate_hash\<close> serialises and hashes.\<close>

definition block_data :: "int \<Rightarrow> real \<Rightarrow> transaction list \<Rightarrow> string \<Rightarrow> int \<Rightarrow> json" where
  "block_data idx ts txs prev nonce = JDict
     [(''index'', JInt idx),
      (''timestamp'', JNum ts),
      (''transactions'', JList (map tx_to_dict txs)),
      (''previous_hash'', JStr prev),
      (''nonce'', JInt nonce)]"

definition calculate_hash :: "(json \<Rightarrow> string) \<Rightarrow> block \<Rightarrow> string" where
  "calculate_hash sha256_json b =
     sha256_json (block_data (b_index b) (b_timestamp b) (b_transactions b)
                    (b_previous_hash b) (b_nonce b))"

text \<open>The constructor of \<open>CPCBlock\<close>, which computes the hash of the new block.\<close>

definition CPCBlock :: "(json \<Rightarrow> string) \<Rightarrow> int \<Rightarrow> real \<Rightarrow> transaction list \<Rightarrow> string \<Rightarrow> int
                          \<Rightarrow> block" where
  "CPCBlock sha256_json idx ts txs prev nonce =
     (let b = \<lparr> b_index = idx, b_timestamp = ts, b_transactions = txs,
                 b_previous_hash = prev, b_nonce = nonce, b_hash = [] \<rparr>
      in b \<lparr> b_hash := calculate_hash sha256_json b \<rparr>)"

text \<open>
  \<open>proof_of_work\<close>: the loop \<open>while True\<close>, which may run forever. Every pass builds a
  candidate block with \<open>timestamp=time.time()\<close>; \<open>clock k\<close> is the reading of the clock in
  the pass that tries nonce \<open>k\<close>. \<open>None\<close> is a loop that never returns.
\<close>

definition candidate_block :: "(json \<Rightarrow> string) \<Rightarrow> (nat \<Rightarrow> real) \<Rightarrow> block \<Rightarrow> transaction list
                                 \<Rightarrow> nat \<Rightarrow> block" where
  "candidate_block sha256_json clock last_block txs nonce =
     CPCBlock sha256_json (b_index last_block + 1) (clock nonce) txs (b_hash last_block)
       (int nonce)"

partial_function (option) pow_loop :: "(json \<Rightarrow> string) \<Rightarrow> (nat \<Rightarrow> real) \<Rightarrow> block
    \<Rightarrow> transaction list \<Rightarrow> string \<Rightarrow> nat \<Rightarrow> nat option" where
  "pow_loop sha256_json clock last_block txs target nonce =
     (if startswith (b_hash (candidate_block sha256_json clock last_block txs nonce)) target
      then Some nonce
      else pow_loop sha256_json clock last_block txs target (nonce + 1))"

declare pow_loop.simps [code]

definition proof_of_work :: "(json \<Rightarrow> string) \<Rightarrow> (nat \<Rightarrow> real) \<Rightarrow> block \<Rightarrow> transaction list
                               \<Rightarrow> int \<Rightarrow> nat option" where
  "proof_of_work sha256_json clock last_block txs difficulty =
     pow_loop sha256_json clock last_block txs (replicate (nat difficulty) CHR ''0'') 0"

text \<open>
  The fee loop of \<open>mine_block\<close>: \<open>if utxo: input_amount += utxo.amount\<close> for every input.
\<close>

fun sum_input_amounts :: "block list \<Rightarrow> real \<Rightarrow> tx_input list \<Rightarrow> real \<Rightarrow> error + real" where
  "sum_input_amounts chain now [] input_amount = Inr input_amount"
| "sum_input_amounts chain now (inp # rest) input_amount =
     ebind (get_utxo chain now (i_txid inp) (i_vout inp) 3)
       (\<lambda>r. case r of
               None \<Rightarrow> sum_input_amounts chain now rest input_amount
             | Some u \<Rightarrow> sum_input_amounts chain now rest (input_amount + u_amount u))"

text \<open>
  The loop of \<open>mine_block\<close> over the pending transactions, on \<open>valid_transactions\<close> and
  \<open>total_fees\<close>. The pending list holds transaction dicts; the model takes them as parsed
  by \<open>Transaction.from_dict\<close>. The body runs under \<open>try\<close>: an exception drops the rest of
  that pass.
\<close>

fun collect_valid :: "(string \<Rightarrow> string \<Rightarrow> string \<Rightarrow> bool) \<Rightarrow> block list \<Rightarrow> real
    \<Rightarrow> transaction list \<Rightarrow> transaction list \<Rightarrow> real \<Rightarrow> transaction list \<times> real" where
  "collect_valid ecdsa chain now [] valid_transactions total_fees =
     (valid_transactions, total_fees)"
| "collect_valid ecdsa chain now (tx # rest) valid_transactions total_fees =
     (case validate_transaction ecdsa chain now tx of
        Inl e \<Rightarrow> collect_valid ecdsa chain now rest valid_transactions total_fees
      | Inr (is_valid, error_msg) \<Rightarrow>
          if is_valid then
            (if length (inputs tx) > 0 then
               (case sum_input_amounts chain now (inputs tx) 0 of
                  Inl e \<Rightarrow> collect_valid ecdsa chain now rest (valid_transactions @ [tx])
                             total_fees
                | Inr input_amount \<Rightarrow>
                    (let output_amount = sum_list (map o_amount (outputs tx));
                         fee = input_amount - output_amount
                     in collect_valid ecdsa chain now rest (valid_transactions @ [tx])
                          (total_fees + fee)))
             else collect_valid ecdsa chain now rest (valid_transactions @ [tx]) total_fees)
          else collect_valid ecdsa chain now rest valid_transactions total_fees)"

text \<open>
  \<open>mine_block\<close>. The clock readings: \<open>now\<close> during validation, \<open>t_reward\<close> when the reward
  transaction is built, \<open>clock\<close> inside \<open>proof_of_work\<close>, and \<open>t_block\<close> when the new block
  is built after \<open>proof_of_work\<close> has returned. The result is the extended chain and the
  new block; \<open>blockchain[-1]\<close> raises \<open>IndexError\<close> on an empty chain.
\<close>

definition reward_transaction :: "(json \<Rightarrow> string) \<Rightarrow> real \<Rightarrow> real \<Rightarrow> transaction" where
  "reward_transaction sha256_json t_reward total_fees =
     (let block_reward = 1;
          total_reward = block_reward + total_fees;
          mining_reward_output =
            \<lparr> o_amount = total_reward, o_address = MINER_ADDRESS,
              o_script_pubkey = to_string \<lparr> script_type = ''P2PKH'', addresses = [MINER_ADDRESS],
                                            required_sig_num = 1, time_lock = None \<rparr>,
              o_utxo_type = ''fuel'', o_payload = empty_payload \<rparr>
      in Transaction sha256_json t_reward [] [mining_reward_output] TYPE_FAUCET
           [(''note'', JStr [CHR 0xE6, CHR 0x8C, CHR 0x96, CHR 0xE7, CHR 0x9F, CHR 0xBF,
                             CHR 0xE5, CHR 0xA5, CHR 0x96, CHR 0xE5, CHR 0x8A, CHR 0xB1]),
            (''block_reward'', JNum block_reward),
            (''fees'', JNum total_fees),
            (''total'', JNum total_reward)])"

definition mine_block :: "(json \<Rightarrow> string) \<Rightarrow> (string \<Rightarrow> string \<Rightarrow> string \<Rightarrow> bool) \<Rightarrow> real \<Rightarrow> real
    \<Rightarrow> (nat \<Rightarrow> real) \<Rightarrow> real \<Rightarrow> block list \<Rightarrow> transaction list
    \<Rightarrow> (error + block list \<times> block) option" where
  "mine_block sha256_json ecdsa now t_reward clock t_block blockchain pending_transactions =
     (let (valid_transactions, total_fees) =
            collect_valid ecdsa blockchain now pending_transactions [] 0;
          reward_tx = reward_transaction sha256_json t_reward total_fees;
          valid_transactions = valid_transactions @ [reward_tx]
      in if blockchain = [] then Some (Inl IndexError)
         else (let last_block = last blockchain
               in case proof_of_work sha256_json clock last_block valid_transactions 4 of
                    None \<Rightarrow> None
                  | Some nonce \<Rightarrow>
                      (let new_block = CPCBlock sha256_json (b_index last_block + 1) t_block
                                         valid_transactions (b_hash last_block) (int nonce)
                       in Some (Inr (blockchain @ [new_block], new_block)))))"

section \<open>Example chains and transactions\<close>

text \<open>A pay-to-public-key-hash output, as the wallet and the miner build it.\<close>

definition p2pkh :: "string \<Rightarrow> string" where
  "p2pkh a = to_string \<lparr> script_type = ''P2PKH'', addresses = [a], required_sig_num = 1,
                          time_lock = None \<rparr>"

definition fuel_output :: "real \<Rightarrow> string \<Rightarrow> tx_output" where
  "fuel_output amt a = \<lparr> o_amount = amt, o_address = a, o_script_pubkey = p2pkh a,
                          o_utxo_type = ''fuel'', o_payload = empty_payload \<rparr>"

definition faucet_tx :: "string \<Rightarrow> real \<Rightarrow> real \<Rightarrow> string \<Rightarrow> transaction" where
  "faucet_tx tid ts amt a = \<lparr> inputs = [], outputs = [fuel_output amt a], tx_type = TYPE_FAUCET,
                               metadata = [], timestamp = ts, txid = tid \<rparr>"

definition block_of :: "int \<Rightarrow> real \<Rightarrow> transaction list \<Rightarrow> block" where
  "block_of idx ts txs = \<lparr> b_index = idx, b_timestamp = ts, b_transactions = txs,
                            b_previous_hash = ''0'', b_nonce = 0, b_hash = ''00'' \<rparr>"


text \<open>Scripts: one that round-trips, and three that do not.\<close>

definition multisig_script :: script where
  "multisig_script = \<lparr> script_type = ''MULTISIG'', addresses = [''alice'', ''bob''],
                        required_sig_num = 2, time_lock = Some 1700000000 \<rparr>"

definition bar_script :: script where
  "bar_script = \<lparr> script_type = ''P2PKH'', addresses = [''a|b''], required_sig_num = 1,
                   time_lock = None \<rparr>"

definition keyword_script :: script where
  "keyword_script = \<lparr> script_type = ''P2PKH'', addresses = [''CHECKLOCKTIMEVERIFY:5''],
                       required_sig_num = 1, time_lock = None \<rparr>"

definition zero_lock_script :: script where
  "zero_lock_script = \<lparr> script_type = ''TIMELOCK'', addresses = [''alice''],
                         required_sig_num = 1, time_lock = Some 0 \<rparr>"

text \<open>The same block, mined a thousand seconds before time \<open>10000000\<close>.\<close>

definition recent_chain :: "block list" where
  "recent_chain = [block_of 0 9999000 [faucet_tx ''g'' 9999000 100 ''miner'']]"

text \<open>A chain whose second transaction spends an outpoint that no block created.\<close>

definition dangling_input :: tx_input where
  "dangling_input = \<lparr> i_txid = ''nowhere'', i_vout = 7, i_signature = None,
                       i_public_key = None, i_signatures = [], i_required_signers = [] \<rparr>"

definition dangling_chain :: "block list" where
  "dangling_chain =
     [block_of 0 0 [faucet_tx ''g'' 0 100 ''miner'',
                    \<lparr> inputs = [dangling_input], outputs = [fuel_output 5 ''alice''],
                      tx_type = TYPE_REDEMPTION, metadata = [], timestamp = 1, txid = ''t1'' \<rparr>]]"

text \<open>
  A stand-in for the signature scheme: the signature of \<open>signer\<close> over \<open>message\<close> is a
  string that names both, and verification compares strings.
\<close>

definition toy_sign :: "string \<Rightarrow> string \<Rightarrow> string" where
  "toy_sign signer message = ''sig('' @ signer @ '','' @ message @ '')''"

definition toy_ecdsa :: "string \<Rightarrow> string \<Rightarrow> string \<Rightarrow> bool" where
  "toy_ecdsa signer signature message = (signature = toy_sign signer message)"

definition signed_input :: "string \<Rightarrow> int \<Rightarrow> string \<Rightarrow> string \<Rightarrow> tx_input" where
  "signed_input t v a message =
     \<lparr> i_txid = t, i_vout = v, i_signature = Some (toy_sign a message), i_public_key = Some a,
       i_signatures = [(a, toy_sign a message)], i_required_signers = [a] \<rparr>"

definition unsigned_input :: "string \<Rightarrow> int \<Rightarrow> tx_input" where
  "unsigned_input t v =
     \<lparr> i_txid = t, i_vout = v, i_signature = None, i_public_key = None,
       i_signatures = [], i_required_signers = [] \<rparr>"

definition rights_payload :: "string \<Rightarrow> string \<Rightarrow> string \<Rightarrow> string list
                                \<Rightarrow> string option option \<Rightarrow> real \<Rightarrow> payload" where
  "rights_payload wh au ct rights parent created =
     \<lparr> work_hash = Some wh, work_title = Some ''title'', author = Some au,
       copyright_type = Some ct, rights_scope = Some rights, parent_utxo = parent,
       p_metadata = Some [], created_at = Some created \<rparr>"

definition copyright_output :: "real \<Rightarrow> string \<Rightarrow> payload \<Rightarrow> tx_output" where
  "copyright_output amt a p = \<lparr> o_amount = amt, o_address = a, o_script_pubkey = p2pkh a,
                                o_utxo_type = ''copyright'', o_payload = p \<rparr>"

definition tx_of :: "string \<Rightarrow> string \<Rightarrow> real \<Rightarrow> tx_input list \<Rightarrow> tx_output list
                       \<Rightarrow> transaction" where
  "tx_of tid ty ts ins outs = \<lparr> inputs = ins, outputs = outs, tx_type = ty, metadata = [],
                                timestamp = ts, txid = tid \<rparr>"

text \<open>
  A registration that names the miner's 100-unit output as its input, carries no
  signature, and creates 1000 units.
\<close>

definition inflating_register :: transaction where
  "inflating_register =
     tx_of ''reg1'' TYPE_COPYRIGHT_REG 9999500 [unsigned_input ''g'' 0]
       [copyright_output 1000 ''mallory''
          (rights_payload ''w1'' ''mallory'' ''sovereignty'' [''print''] (Some None) 9999500)]"

text \<open>
  A registration whose input is nowhere on the chain and whose sovereignty output has an
  empty \<open>work_hash\<close>.
\<close>

definition hollow_register :: transaction where
  "hollow_register =
     tx_of ''reg0'' TYPE_COPYRIGHT_REG 9999500 [dangling_input]
       [copyright_output 1 ''mallory''
          (rights_payload [] ''mallory'' ''sovereignty'' [''print''] (Some None) 9999500)]"

text \<open>An honest registration: Alice spends her 5 units, signed, for a sovereignty output.\<close>

definition alice_chain :: "block list" where
  "alice_chain =
     [block_of 0 9999000 [faucet_tx ''g'' 9999000 100 ''miner''],
      block_of 1 9999100 [faucet_tx ''f1'' 9999100 5 ''alice'']]"

definition honest_register :: transaction where
  "honest_register =
     tx_of ''reg3'' TYPE_COPYRIGHT_REG 9999500 [signed_input ''f1'' 0 ''alice'' ''reg3'']
       [copyright_output 1 ''alice''
          (rights_payload ''w1'' ''alice'' ''sovereignty'' [''print''] (Some None) 9999500),
        fuel_output (399 / 100) ''alice'']"

text \<open>
  A chain that holds two copyright outputs of Alice: a sovereignty created at time \<open>0\<close>,
  expired at time \<open>10000000\<close>, and a proof whose \<open>created_at\<close> is minus ninety days, so
  that its end time is \<open>0\<close>.
\<close>

definition expired_chain :: "block list" where
  "expired_chain =
     [block_of 0 9999000 [faucet_tx ''g'' 9999000 100 ''miner''],
      block_of 1 9999100
        [tx_of ''old'' TYPE_COPYRIGHT_REG 9999100 [unsigned_input ''g'' 0]
           [copyright_output 1 ''alice''
              (rights_payload ''w1'' ''alice'' ''sovereignty'' [''print''] (Some None) 0),
            copyright_output 1 ''alice''
              (rights_payload ''w2'' ''alice'' ''proof'' [''print''] (Some None) (- 7776000))]]]"

definition register_from_expired :: transaction where
  "register_from_expired =
     tx_of ''reg2'' TYPE_COPYRIGHT_REG 9999500 [unsigned_input ''old'' 0]
       [copyright_output 1 ''mallory''
          (rights_payload ''w9'' ''mallory'' ''sovereignty'' [''print''] (Some None) 9999500)]"

definition redeem_zero_end :: transaction where
  "redeem_zero_end =
     tx_of ''red1'' TYPE_REDEMPTION 9999500 [signed_input ''old'' 1 ''alice'' ''red1'']
       [fuel_output 1 ''alice'']"

definition redeem_expired :: transaction where
  "redeem_expired =
     tx_of ''red2'' TYPE_REDEMPTION 9999500 [signed_input ''old'' 0 ''alice'' ''red2'']
       [fuel_output 1 ''alice'']"

text \<open>
  A chain on which Bob holds a live proof for work \<open>w1\<close> with the rights print and
  distribute, and three transactions that spend it: a renewal that also mints a
  sovereignty for the same work, a sub-license of the right to print, and a sub-license
  of a right the parent does not have.
\<close>

definition license_chain :: "block list" where
  "license_chain =
     [block_of 0 9999000 [faucet_tx ''g'' 9999000 100 ''miner''],
      block_of 1 9999100
        [tx_of ''prf'' TYPE_AUTH_ACTIVATE 9999100 [unsigned_input ''g'' 0]
           [copyright_output 3 ''bob''
              (rights_payload ''w1'' ''alice'' ''proof'' [''print'', ''distribute'']
                 (Some None) 9999100)]]]"

definition renewal_mints_sovereignty :: transaction where
  "renewal_mints_sovereignty =
     tx_of ''ren1'' TYPE_RENEWAL 9999500 [signed_input ''prf'' 0 ''bob'' ''ren1'']
       [copyright_output 1 ''bob''
          (rights_payload ''w1'' ''alice'' ''proof'' [''print'', ''distribute'']
             (Some None) 9999500),
        copyright_output 1 ''bob''
          (rights_payload ''w1'' ''bob'' ''sovereignty'' [''print'', ''distribute'']
             (Some None) 9999500)]"

definition sub_license_print :: transaction where
  "sub_license_print =
     tx_of ''sub1'' TYPE_SUB_LICENSE 9999500 [signed_input ''prf'' 0 ''bob'' ''sub1'']
       [copyright_output 2 ''bob''
          (rights_payload ''w1'' ''alice'' ''proof'' [''print'', ''distribute'']
             (Some None) 9999500),
        copyright_output (1 / 2) ''carol''
          (rights_payload ''w1'' ''alice'' ''secondary'' [''print'']
             (Some (Some ''prf:0'')) 9999500)]"

definition sub_license_adapt :: transaction where
  "sub_license_adapt =
     tx_of ''sub2'' TYPE_SUB_LICENSE 9999500 [signed_input ''prf'' 0 ''bob'' ''sub2'']
       [copyright_output 2 ''bob''
          (rights_payload ''w1'' ''alice'' ''proof'' [''print'', ''distribute'']
             (Some None) 9999500),
        copyright_output (1 / 2) ''carol''
          (rights_payload ''w1'' ''alice'' ''secondary'' [''adapt'']
             (Some (Some ''prf:0'')) 9999500)]"

text \<open>
  A stand-in for \<open>sha256_json\<close>, to run the miner and \<open>add_signature\<close> on concrete data.
  On a block dict it gives a digest that begins with four zeros exactly when nonce plus
  the whole seconds of the timestamp is divisible by three; on any other value it gives
  the size of the value in decimal. Like SHA-256, it depends on the timestamp of a block
  and on the signatures of a transaction.
\<close>

definition toy_sha256 :: "json \<Rightarrow> string" where
  "toy_sha256 j =
     (case j of
        JDict d \<Rightarrow>
          (case (map_of d ''nonce'', map_of d ''timestamp'') of
             (Some (JInt n), Some (JNum t)) \<Rightarrow>
               if (n + \<lfloor>t\<rfloor>) mod 3 = 0 then ''0000c0de'' else ''5eedf00d''
           | _ \<Rightarrow> str_nat (size j))
      | _ \<Rightarrow> str_nat (size j))"

text \<open>The clock inside \<open>proof_of_work\<close>: one second for every pass.\<close>

definition pow_clock :: "nat \<Rightarrow> real" where
  "pow_clock k = 10000003 + real k"

text \<open>
  Alice's spending of her faucet output on \<open>alice_chain\<close>, built but not yet signed.
\<close>

definition unsigned_spend :: transaction where
  "unsigned_spend =
     Transaction toy_sha256 9999500
       [\<lparr> i_txid = ''f1'', i_vout = 0, i_signature = None, i_public_key = Some ''alice'',
          i_signatures = [], i_required_signers = [''alice''] \<rparr>]
       [fuel_output 4 ''alice''] TYPE_REDEMPTION []"



text \<open>
  A chain on which Bob holds two proofs, for \<open>w1\<close> with the right to print (\<open>pa:0\<close>)
  and for \<open>w2\<close> with the right to adapt (\<open>pb:0\<close>), and a sub-license that spends
  both, rebuilds both, and creates a secondary for \<open>w2\<close> that names \<open>pb:0\<close> as its
  parent and carries the right to print.
\<close>

definition two_proofs_chain :: "block list" where
  "two_proofs_chain =
     [block_of 0 9999000 [faucet_tx ''g'' 9999000 100 ''miner'',
                          faucet_tx ''h'' 9999000 100 ''miner''],
      block_of 1 9999100
        [tx_of ''pa'' TYPE_AUTH_ACTIVATE 9999100 [unsigned_input ''g'' 0]
           [copyright_output 2 ''bob''
              (rights_payload ''w1'' ''alice'' ''proof'' [''print''] (Some None) 9999100)],
         tx_of ''pb'' TYPE_AUTH_ACTIVATE 9999100 [unsigned_input ''h'' 0]
           [copyright_output 2 ''bob''
              (rights_payload ''w2'' ''alice'' ''proof'' [''adapt''] (Some None) 9999100)]]]"

definition cross_sub_license :: transaction where
  "cross_sub_license =
     tx_of ''sub3'' TYPE_SUB_LICENSE 9999500
       [signed_input ''pa'' 0 ''bob'' ''sub3'', signed_input ''pb'' 0 ''bob'' ''sub3'']
       [copyright_output 1 ''bob''
          (rights_payload ''w1'' ''alice'' ''proof'' [''print''] (Some None) 9999500),
        copyright_output 1 ''bob''
          (rights_payload ''w2'' ''alice'' ''proof'' [''adapt''] (Some None) 9999500),
        copyright_output 1 ''carol''
          (rights_payload ''w2'' ''alice'' ''secondary'' [''print'']
             (Some (Some ''pb:0'')) 9999500)]"

section \<open>Lemmas: integers as decimal strings\<close>

lemma digit_char_props: "d < 10 \<Longrightarrow> is_digit (digit_char d) \<and> digit_val (digit_char d) = d
   \<and> \<not> is_space (digit_char d) \<and> digit_char d \<noteq> CHR ''_'' \<and> digit_char d \<noteq> CHR ''-''
   \<and> digit_char d \<noteq> CHR ''+'' \<and> digit_char d \<noteq> CHR ''|'' \<and> digit_char d \<noteq> CHR '':''"
proof -
  assume "d < 10"
  then have "d \<in> {0,1,2,3,4,5,6,7,8,9}" by auto
  then show ?thesis
    by (auto simp: digit_char_def is_digit_def digit_val_def is_space_def)
qed

lemma str_nat_digits: "str_nat n \<noteq> [] \<and> (\<forall>c \<in> set (str_nat n). is_digit c)"
proof (induction n rule: str_nat.induct)
  case (1 n)
  show ?case
  proof (cases "n < 10")
    case True
    then show ?thesis using digit_char_props [of n] by (simp add: str_nat.simps [of n])
  next
    case False
    then show ?thesis using 1 digit_char_props [of "n mod 10"]
      by (simp add: str_nat.simps [of n])
  qed
qed

lemma digits_val_snoc: "digits_val acc (s @ [c]) = digits_val acc s * 10 + digit_val c"
  by (induction s arbitrary: acc) auto

lemma digits_val_str_nat: "digits_val 0 (str_nat n) = n"
proof (induction n rule: str_nat.induct)
  case (1 n)
  show ?case
  proof (cases "n < 10")
    case True
    then show ?thesis using digit_char_props [of n] by (simp add: str_nat.simps [of n])
  next
    case False
    then show ?thesis using 1 digit_char_props [of "n mod 10"]
      by (simp add: str_nat.simps [of n] digits_val_snoc)
  qed
qed

lemma digits_ok_all: "s \<noteq> [] \<Longrightarrow> \<forall>c \<in> set s. is_digit c \<Longrightarrow> digits_ok s"
proof (induction s rule: digits_ok.induct)
  case 1 then show ?case by simp
next
  case (2 c) then show ?case by simp
next
  case (3 c d cs)
  then have "d \<noteq> CHR ''_''" by (auto simp: is_digit_def)
  with 3 show ?case by simp
qed

lemma py_strip_id: "s \<noteq> [] \<Longrightarrow> \<not> is_space (hd s) \<Longrightarrow> \<not> is_space (last s) \<Longrightarrow> py_strip s = s"
proof -
  assume a: "s \<noteq> []" "\<not> is_space (hd s)" "\<not> is_space (last s)"
  then have 1: "dropWhile is_space s = s" by (cases s) auto
  from a have "rev s \<noteq> []" "\<not> is_space (hd (rev s))" by (auto simp: hd_rev)
  then have 2: "dropWhile is_space (rev s) = rev s" by (cases "rev s") auto
  show ?thesis by (simp add: py_strip_def 1 2)
qed

lemma str_nat_chars: "c \<in> set (str_nat n) \<Longrightarrow> \<exists>d < 10. c = digit_char d"
proof (induction n rule: str_nat.induct)
  case (1 n)
  show ?case
  proof (cases "n < 10")
    case True
    with 1(2) have "c = digit_char n" by (simp add: str_nat.simps [of n])
    with True show ?thesis by blast
  next
    case False
    with 1(2) have "c \<in> set (str_nat (n div 10)) \<or> c = digit_char (n mod 10)"
      by (auto simp add: str_nat.simps [of n])
    then show ?thesis
    proof
      assume "c \<in> set (str_nat (n div 10))"
      with 1(1) False show ?thesis by blast
    next
      assume "c = digit_char (n mod 10)"
      moreover have "n mod 10 < 10" by simp
      ultimately show ?thesis by blast
    qed
  qed
qed

lemma str_nat_no_special:
  "c \<in> set (str_nat n) \<Longrightarrow> \<not> is_space c \<and> c \<noteq> CHR ''_'' \<and> c \<noteq> CHR ''-'' \<and> c \<noteq> CHR ''+''
      \<and> c \<noteq> CHR ''|'' \<and> c \<noteq> CHR '':''"
proof -
  assume "c \<in> set (str_nat n)"
  then obtain d where "d < 10" "c = digit_char d" using str_nat_chars by blast
  then show ?thesis using digit_char_props [of d] by simp
qed

lemma py_int_of_str_str_nat: "py_int_of_str (str_nat n) = Inr (int n)"
proof -
  let ?s = "str_nat n"
  have ne: "?s \<noteq> []" using str_nat_digits by blast
  have hd_in: "hd ?s \<in> set ?s" and last_in: "last ?s \<in> set ?s" using ne by auto
  have strip: "py_strip ?s = ?s"
    using py_strip_id [OF ne] str_nat_no_special [OF hd_in] str_nat_no_special [OF last_in] by blast
  have nosign: "hd ?s \<noteq> CHR ''-''" "hd ?s \<noteq> CHR ''+''"
    using str_nat_no_special [OF hd_in] by auto
  have ok: "digits_ok ?s" using digits_ok_all str_nat_digits by blast
  have flt: "filter (\<lambda>c. c \<noteq> CHR ''_'') ?s = ?s"
    using str_nat_no_special by (simp add: filter_id_conv)
  show ?thesis
    by (simp add: py_int_of_str_def strip nosign ok flt digits_val_str_nat Let_def)
qed

lemma py_int_of_str_str_int: "py_int_of_str (str_int i) = Inr i"
proof (cases "i < 0")
  case False
  then show ?thesis by (simp add: str_int_def py_int_of_str_str_nat)
next
  case True
  let ?s = "str_nat (nat (- i))"
  have ne: "?s \<noteq> []" using str_nat_digits by blast
  have last_in: "last ?s \<in> set ?s" using ne by auto
  have "\<not> is_space (CHR ''-'')" by (simp add: is_space_def)
  moreover have "\<not> is_space (last (CHR ''-'' # ?s))"
    using ne str_nat_no_special [OF last_in] by simp
  ultimately have strip: "py_strip (CHR ''-'' # ?s) = CHR ''-'' # ?s"
    using py_strip_id [of "CHR ''-'' # ?s"] by simp
  have ok: "digits_ok ?s" using digits_ok_all str_nat_digits by blast
  have flt: "filter (\<lambda>c. c \<noteq> CHR ''_'') ?s = ?s"
    using str_nat_no_special by (simp add: filter_id_conv)
  show ?thesis using True
    by (simp add: str_int_def py_int_of_str_def strip ok flt digits_val_str_nat Let_def)
qed

lemma str_int_inj: "str_int i = str_int j \<Longrightarrow> i = j"
proof -
  assume "str_int i = str_int j"
  then have "py_int_of_str (str_int i) = py_int_of_str (str_int j)" by simp
  then show ?thesis by (simp add: py_int_of_str_str_int)
qed

lemma str_int_no_sep: "c \<in> set (str_int i) \<Longrightarrow> c \<noteq> CHR ''|'' \<and> c \<noteq> CHR '':''"
proof (cases "i < 0")
  case True
  assume "c \<in> set (str_int i)"
  with True have "c = CHR ''-'' \<or> c \<in> set (str_nat (nat (- i)))" by (simp add: str_int_def)
  then show ?thesis using str_nat_no_special [of c "nat (- i)"] by auto
next
  case False
  assume "c \<in> set (str_int i)"
  with False have "c \<in> set (str_nat (nat i))" by (simp add: str_int_def)
  then show ?thesis using str_nat_no_special [of c "nat i"] by auto
qed

lemma identifier_of_inj: "identifier_of t v = identifier_of t w \<Longrightarrow> v = w"
proof -
  assume "identifier_of t v = identifier_of t w"
  then have "str_int v = str_int w" by (simp add: identifier_of_def)
  then show ?thesis by (rule str_int_inj)
qed

section \<open>Lemmas: splitting and joining\<close>

lemma split_on_nonempty: "split_on sep s \<noteq> []"
  by (induction s) (auto split: list.splits)

lemma split_on_no_sep: "sep \<notin> set s \<Longrightarrow> split_on sep s = [s]"
  by (induction s) auto

lemma split_on_append:
  "sep \<notin> set p \<Longrightarrow> split_on sep (p @ sep # s) = p # split_on sep s"
  by (induction p) auto

lemma split_join:
  "parts \<noteq> [] \<Longrightarrow> \<forall>p \<in> set parts. sep \<notin> set p \<Longrightarrow> split_on sep (join_with sep parts) = parts"
proof (induction parts rule: join_with.induct)
  case (1 sep) then show ?case by simp
next
  case (2 sep p) then show ?case by (simp add: split_on_no_sep)
next
  case (3 sep p q ps) then show ?case by (simp add: split_on_append)
qed

lemma parse_parts_addresses:
  "\<forall>a \<in> set as. \<not> startswith a ''CHECKLOCKTIMEVERIFY:'' \<and> \<not> startswith a ''MULTISIG:'' \<Longrightarrow>
     parse_parts as lock rs addrs = Inr (lock, rs, addrs @ as)"
  by (induction as arbitrary: addrs) auto

lemma startswith_append: "startswith (p @ s) p"
  by (simp add: startswith_def)

lemma split_clt: "split_on CHR '':'' (''CHECKLOCKTIMEVERIFY:'' @ str_int t) = [''CHECKLOCKTIMEVERIFY'', str_int t]"
proof -
  have "CHR '':'' \<notin> set (str_int t)" using str_int_no_sep by blast
  then have 1: "split_on CHR '':'' (str_int t) = [str_int t]" by (rule split_on_no_sep)
  have "split_on CHR '':'' (''CHECKLOCKTIMEVERIFY'' @ CHR '':'' # str_int t)
          = ''CHECKLOCKTIMEVERIFY'' # split_on CHR '':'' (str_int t)"
    by (rule split_on_append) simp
  with 1 show ?thesis by simp
qed

lemma split_ms: "split_on CHR '':'' (''MULTISIG:'' @ str_int r @ '':'' @ str_int n) = [''MULTISIG'', str_int r, str_int n]"
proof -
  have n: "split_on CHR '':'' (str_int n) = [str_int n]"
    using str_int_no_sep split_on_no_sep by blast
  have r: "CHR '':'' \<notin> set (str_int r)" using str_int_no_sep by blast
  have 1: "split_on CHR '':'' (str_int r @ CHR '':'' # str_int n) = [str_int r, str_int n]"
    using split_on_append [OF r, of "str_int n"] n by simp
  have "split_on CHR '':'' (''MULTISIG'' @ CHR '':'' # (str_int r @ CHR '':'' # str_int n))
          = ''MULTISIG'' # split_on CHR '':'' (str_int r @ CHR '':'' # str_int n)"
    by (rule split_on_append) simp
  with 1 show ?thesis by simp
qed

lemma parse_clt:
  "parse_parts ((''CHECKLOCKTIMEVERIFY:'' @ str_int t) # rest) lock rs addrs = parse_parts rest (Some t) rs addrs"
  using startswith_append [of "''CHECKLOCKTIMEVERIFY:''" "str_int t"]
  by (simp only: parse_parts.simps split_clt if_True list.case py_int_of_str_str_int ebind_def sum.case)

lemma parse_ms:
  "parse_parts ((''MULTISIG:'' @ str_int r @ '':'' @ str_int n) # rest) lock rs addrs = parse_parts rest lock r addrs"
proof -
  have a: "\<not> startswith (''MULTISIG:'' @ str_int r @ '':'' @ str_int n) ''CHECKLOCKTIMEVERIFY:''"
    by (simp add: startswith_def)
  have b: "startswith (''MULTISIG:'' @ str_int r @ '':'' @ str_int n) ''MULTISIG:''"
    by (rule startswith_append)
  show ?thesis
    by (simp only: parse_parts.simps a b split_ms if_True if_False list.case py_int_of_str_str_int ebind_def sum.case)
qed

lemma no_bar_clt: "CHR ''|'' \<notin> set (''CHECKLOCKTIMEVERIFY:'' @ str_int t)"
  using str_int_no_sep [of "CHR ''|''" t] by auto

lemma no_bar_ms: "CHR ''|'' \<notin> set (''MULTISIG:'' @ str_int r @ '':'' @ str_int n)"
  using str_int_no_sep [of "CHR ''|''" r] str_int_no_sep [of "CHR ''|''" n] by auto

section \<open>Script serialisation (C8)\<close>

text \<open>
  Claim C8, as amended. \<open>from_string (to_string s)\<close> gives back \<open>s\<close> for every script
  whose \<open>script_type\<close> and addresses contain no \<open>|\<close>, none of whose addresses starts
  with \<open>CHECKLOCKTIMEVERIFY:\<close> or \<open>MULTISIG:\<close>, whose \<open>time_lock\<close> is absent or not
  \<open>0\<close>, and whose \<open>required_sig_num\<close> is at least \<open>1\<close>.
\<close>

theorem script_round_trip:
  fixes s :: script
  assumes st: "CHR ''|'' \<notin> set (script_type s)"
    and ad: "\<forall>a \<in> set (addresses s). CHR ''|'' \<notin> set a
               \<and> \<not> startswith a ''CHECKLOCKTIMEVERIFY:'' \<and> \<not> startswith a ''MULTISIG:''"
    and tl: "time_lock s \<noteq> Some 0"
    and rs: "required_sig_num s \<ge> 1"
  shows "from_string (to_string s) = Inr s"
proof -
  define clt where "clt = ''CHECKLOCKTIMEVERIFY:'' @ str_int (the (time_lock s))"
  define msp where "msp = ''MULTISIG:'' @ str_int (required_sig_num s) @ '':''
                            @ str_int (int (length (addresses s)))"
  define cpart where "cpart = (if int_truthy (time_lock s) then [clt] else [])"
  define mpart where "mpart = (if required_sig_num s > 1 then [msp] else [])"
  have pc: "\<And>rest lock r addrs.
      parse_parts (clt # rest) lock r addrs = parse_parts rest (Some (the (time_lock s))) r addrs"
    unfolding clt_def by (rule parse_clt)
  have pm: "\<And>rest lock r addrs.
      parse_parts (msp # rest) lock r addrs = parse_parts rest lock (required_sig_num s) addrs"
    unfolding msp_def by (rule parse_ms)
  have nb: "CHR ''|'' \<notin> set clt" "CHR ''|'' \<notin> set msp"
    unfolding clt_def msp_def by (rule no_bar_clt, rule no_bar_ms)
  have ts: "to_string s = join_with CHR ''|'' (script_type s # (cpart @ mpart @ addresses s))"
    by (simp add: to_string_def Let_def clt_def msp_def cpart_def mpart_def)
  have nobar: "\<forall>p \<in> set (script_type s # (cpart @ mpart @ addresses s)). CHR ''|'' \<notin> set p"
    using st ad nb by (auto simp: cpart_def mpart_def)
  have sp: "split_on CHR ''|'' (to_string s) = script_type s # (cpart @ mpart @ addresses s)"
    unfolding ts using nobar by (intro split_join) simp_all
  have addrs: "\<And>lock r. parse_parts (addresses s) lock r [] = Inr (lock, r, addresses s)"
  proof -
    fix lock r
    have "\<forall>a \<in> set (addresses s). \<not> startswith a ''CHECKLOCKTIMEVERIFY:'' \<and> \<not> startswith a ''MULTISIG:''"
      using ad by blast
    from parse_parts_addresses [OF this, of lock r "[]"]
    show "parse_parts (addresses s) lock r [] = Inr (lock, r, addresses s)" by simp
  qed
  have ms: "\<And>lock. parse_parts (mpart @ addresses s) lock 1 [] = Inr (lock, required_sig_num s, addresses s)"
  proof -
    fix lock
    show "parse_parts (mpart @ addresses s) lock 1 [] = Inr (lock, required_sig_num s, addresses s)"
    proof (cases "required_sig_num s > 1")
      case True
      then show ?thesis by (simp add: mpart_def pm addrs del: parse_parts.simps)
    next
      case False
      with rs have "required_sig_num s = 1" by simp
      then show ?thesis using addrs [of lock 1] by (simp add: mpart_def del: parse_parts.simps)
    qed
  qed
  have all: "parse_parts (cpart @ mpart @ addresses s) None 1 [] = Inr (time_lock s, required_sig_num s, addresses s)"
  proof (cases "time_lock s")
    case None
    then show ?thesis using ms [of None] by (simp add: cpart_def int_truthy_def del: parse_parts.simps)
  next
    case (Some t)
    with tl have "t \<noteq> 0" by simp
    with Some show ?thesis using ms [of "Some t"]
      by (simp add: cpart_def int_truthy_def pc del: parse_parts.simps)
  qed
  show ?thesis
    unfolding from_string_def sp using all by (simp add: ebind_def del: parse_parts.simps)
qed

text \<open>The theorem at a two-of-two multisig script with a time lock.\<close>

theorem script_round_trip_witness:
  "CHR ''|'' \<notin> set (script_type multisig_script)
   \<and> list_all (\<lambda>a. CHR ''|'' \<notin> set a \<and> \<not> startswith a ''CHECKLOCKTIMEVERIFY:''
                    \<and> \<not> startswith a ''MULTISIG:'') (addresses multisig_script)
   \<and> time_lock multisig_script \<noteq> Some 0
   \<and> required_sig_num multisig_script \<ge> 1
   \<and> from_string (to_string multisig_script) = Inr multisig_script"
proof -
  have h1: "CHR ''|'' \<notin> set (script_type multisig_script)"
    by (simp add: multisig_script_def)
  have h2: "list_all (\<lambda>a. CHR ''|'' \<notin> set a \<and> \<not> startswith a ''CHECKLOCKTIMEVERIFY:''
                    \<and> \<not> startswith a ''MULTISIG:'') (addresses multisig_script)"
    by (simp add: multisig_script_def startswith_def)
  have h3: "time_lock multisig_script \<noteq> Some 0"
    by (simp add: multisig_script_def)
  have h4: "required_sig_num multisig_script \<ge> 1"
    by (simp add: multisig_script_def)
  from script_round_trip [OF h1 h2 [unfolded list_all_iff] h3 h4] h1 h2 h3 h4
  show ?thesis by blast
qed

text \<open>
  The claim as stated fails: an address that contains \<open>|\<close> is split in two, an address
  that starts with \<open>CHECKLOCKTIMEVERIFY:\<close> is read as a time lock, and a time lock of
  \<open>0\<close> is not written at all.
\<close>

theorem script_round_trip_counterexample:
  "from_string (to_string bar_script) \<noteq> Inr bar_script
   \<and> from_string (to_string keyword_script) \<noteq> Inr keyword_script
   \<and> from_string (to_string zero_lock_script) \<noteq> Inr zero_lock_script"
  by code_simp

section \<open>The scan of the chain (C10, C6)\<close>

lemma consume_input_Inr: "\<exists>utxos'. consume_input utxos inp = Inr utxos'"
  by (simp add: consume_input_def dict_delitem_def Let_def)

lemma consume_inputs_Inr: "\<exists>utxos'. consume_inputs utxos ins = Inr utxos'"
proof (induction ins arbitrary: utxos)
  case Nil
  show ?case by simp
next
  case (Cons inp rest)
  obtain u1 where "consume_input utxos inp = Inr u1"
    using consume_input_Inr by blast
  with Cons.IH [of u1] show ?case by (simp add: ebind_def)
qed

lemma scan_transaction_Inr: "\<exists>utxos'. scan_transaction utxos tx = Inr utxos'"
proof -
  obtain u1 where "consume_inputs utxos (inputs tx) = Inr u1"
    using consume_inputs_Inr by blast
  then show ?thesis by (simp add: scan_transaction_def ebind_def)
qed

lemma scan_transactions_Inr: "\<exists>utxos'. scan_transactions utxos txs = Inr utxos'"
proof (induction txs arbitrary: utxos)
  case Nil
  show ?case by simp
next
  case (Cons tx rest)
  obtain u1 where "scan_transaction utxos tx = Inr u1"
    using scan_transaction_Inr by blast
  with Cons.IH [of u1] show ?case by (simp add: ebind_def)
qed

lemma scan_blocks_Inr: "\<exists>utxos'. scan_blocks utxos bs start_time = Inr utxos'"
proof (induction bs arbitrary: utxos)
  case Nil
  show ?case by simp
next
  case (Cons b rest)
  obtain u1 where "scan_transactions utxos (b_transactions b) = Inr u1"
    using scan_transactions_Inr by blast
  with Cons.IH [of u1] Cons.IH [of utxos] show ?case by (simp add: ebind_def)
qed

lemma scan_blockchain_Inr: "\<exists>utxos. scan_blockchain blockchain start_time = Inr utxos"
  unfolding scan_blockchain_def by (rule scan_blocks_Inr)

lemma dict_get_setitem: "dict_get (dict_setitem d k v) k' = (if k' = k then Some v else dict_get d k')"
  by (simp add: dict_get_def dict_setitem_def update_conv')

lemma create_outputs_other:
  "\<forall>j < length outs. k \<noteq> identifier_of t (v + int j) \<Longrightarrow>
     dict_get (create_outputs utxos t v outs) k = dict_get utxos k"
proof (induction outs arbitrary: utxos v)
  case Nil
  show ?case by simp
next
  case (Cons out rest)
  have k0: "k \<noteq> identifier_of t v" using Cons.prems [rule_format, of 0] by simp
  have "\<forall>j < length rest. k \<noteq> identifier_of t (v + 1 + int j)"
  proof (intro allI impI)
    fix j assume j: "j < length rest"
    have e: "v + int (Suc j) = v + 1 + int j" by simp
    show "k \<noteq> identifier_of t (v + 1 + int j)"
      using Cons.prems [rule_format, of "Suc j"] j unfolding e by simp
  qed
  from Cons.IH [OF this] k0 show ?case
    by (simp add: Let_def dict_get_setitem get_identifier_def make_utxo_def)
qed

lemma create_outputs_inserted:
  "i < length outs \<Longrightarrow>
     dict_get (create_outputs utxos t v outs) (identifier_of t (v + int i))
       = Some (make_utxo t (v + int i) (outs ! i))"
proof (induction outs arbitrary: utxos v i)
  case Nil
  then show ?case by simp
next
  case (Cons out rest)
  show ?case
  proof (cases i)
    case 0
    have "\<forall>j < length rest. identifier_of t v \<noteq> identifier_of t (v + 1 + int j)"
    proof (intro allI impI)
      fix j
      have "v \<noteq> v + 1 + int j" by simp
      then show "identifier_of t v \<noteq> identifier_of t (v + 1 + int j)"
        using identifier_of_inj by blast
    qed
    from create_outputs_other [OF this] 0 show ?thesis
      by (simp add: Let_def dict_get_setitem get_identifier_def make_utxo_def)
  next
    case (Suc i')
    with Cons.prems have "i' < length rest" by simp
    have e: "v + int (Suc i') = v + 1 + int i'" by simp
    from Cons.IH [OF \<open>i' < length rest\<close>, of _ "v + 1"] show ?thesis
      unfolding Suc e by (simp add: Let_def)
  qed
qed

text \<open>
  Claim C10. \<open>scan_blockchain\<close> returns a dict on every chain and for every start time: it
  never raises. Consuming an input whose key is not in the dict leaves the dict as it is,
  and after the outputs of a transaction have been created every one of them is in the
  dict under its own key.
\<close>

theorem scan_blockchain_total:
  "(\<exists>utxos. scan_blockchain blockchain start_time = Inr utxos)
   \<and> (\<not> dict_contains utxos0 (identifier_of (i_txid inp) (i_vout inp))
        \<longrightarrow> consume_input utxos0 inp = Inr utxos0)
   \<and> (\<forall>i < length outs.
         dict_get (create_outputs utxos0 t v outs) (identifier_of t (v + int i))
           = Some (make_utxo t (v + int i) (outs ! i)))"
proof (intro conjI)
  show "\<exists>utxos. scan_blockchain blockchain start_time = Inr utxos"
    by (rule scan_blockchain_Inr)
  show "\<not> dict_contains utxos0 (identifier_of (i_txid inp) (i_vout inp))
          \<longrightarrow> consume_input utxos0 inp = Inr utxos0"
    by (simp add: consume_input_def Let_def)
  show "\<forall>i < length outs.
          dict_get (create_outputs utxos0 t v outs) (identifier_of t (v + int i))
            = Some (make_utxo t (v + int i) (outs ! i))"
    using create_outputs_inserted by blast
qed

text \<open>
  The theorem on a chain whose second transaction spends an outpoint that no block
  created: the scan returns, the unknown input changes nothing, and the output is there.
\<close>

theorem scan_blockchain_total_witness:
  "(\<exists>utxos. scan_blockchain dangling_chain None = Inr utxos)
   \<and> \<not> dict_contains [] (identifier_of (i_txid dangling_input) (i_vout dangling_input))
   \<and> consume_input [] dangling_input = Inr []
   \<and> (0::nat) < length [fuel_output 5 ''alice'']
   \<and> dict_get (create_outputs [] ''t1'' 0 [fuel_output 5 ''alice'']) (identifier_of ''t1'' 0)
        = Some (make_utxo ''t1'' 0 (fuel_output 5 ''alice''))"
proof -
  have h: "\<not> dict_contains [] (identifier_of (i_txid dangling_input) (i_vout dangling_input))"
    by (simp add: dict_contains_def)
  have l: "(0::nat) < length [fuel_output 5 ''alice'']" by simp
  from scan_blockchain_total [of dangling_chain None "[]" dangling_input
         "[fuel_output 5 ''alice'']" "''t1''" 0]
  have 1: "\<exists>utxos. scan_blockchain dangling_chain None = Inr utxos"
    and 2: "consume_input [] dangling_input = Inr []"
    and 3: "\<forall>i < length [fuel_output 5 ''alice''].
              dict_get (create_outputs [] ''t1'' 0 [fuel_output 5 ''alice''])
                (identifier_of ''t1'' (0 + int i))
              = Some (make_utxo ''t1'' (0 + int i) ([fuel_output 5 ''alice''] ! i))"
    using h by blast+
  from 3 [rule_format, OF l] have
    "dict_get (create_outputs [] ''t1'' 0 [fuel_output 5 ''alice'']) (identifier_of ''t1'' 0)
       = Some (make_utxo ''t1'' 0 (fuel_output 5 ''alice''))" by simp
  with 1 2 h l show ?thesis by blast
qed

lemma scan_blocks_filter:
  "scan_blocks utxos bs start_time
     = scan_blocks utxos (filter (\<lambda>b. \<not> skips_block start_time b) bs) None"
proof (induction bs arbitrary: utxos)
  case Nil
  show ?case by simp
next
  case (Cons b rest)
  have n: "\<And>x. \<not> skips_block None x" by (simp add: skips_block_def)
  show ?case
  proof (cases "skips_block start_time b")
    case True
    then show ?thesis using Cons.IH by simp
  next
    case False
    then show ?thesis using Cons.IH n by (simp add: ebind_def split: sum.splits)
  qed
qed

lemma scan_blockchain_window:
  assumes "\<forall>b \<in> set blockchain. \<not> skips_block start_time b"
  shows "scan_blockchain blockchain start_time = scan_blockchain blockchain None"
proof -
  from assms have "filter (\<lambda>b. \<not> skips_block start_time b) blockchain = blockchain"
    by (simp add: filter_id_conv)
  then show ?thesis
    unfolding scan_blockchain_def using scan_blocks_filter [of "[]" blockchain start_time]
    by simp
qed

lemma unskipped_chain_queries_equal:
  assumes "\<forall>b \<in> set blockchain. \<not> skips_block (Some (window_start now 3)) b"
  shows "get_utxo blockchain now t v 3 = full_get_utxo blockchain t v
         \<and> get_utxos_by_address blockchain now a 3 = full_get_utxos_by_address blockchain a
         \<and> get_balance blockchain now a 3 = full_get_balance blockchain a"
  using scan_blockchain_window [OF assms]
  by (simp add: get_utxo_def full_get_utxo_def get_utxos_by_address_def
      full_get_utxos_by_address_def get_balance_def full_get_balance_def)























section \<open>The validator (C2, C3, C4, C5, C9)\<close>

lemma type_constants_distinct:
  "TYPE_SUB_LICENSE \<noteq> TYPE_AUTH_LOCK" "TYPE_SUB_LICENSE \<noteq> TYPE_AUTH_ACTIVATE"
  "TYPE_SUB_LICENSE \<noteq> TYPE_RENEWAL" "TYPE_SUB_LICENSE \<noteq> TYPE_FAUCET"
  "TYPE_SUB_LICENSE \<noteq> TYPE_COPYRIGHT_REG" "TYPE_COPYRIGHT_REG \<noteq> TYPE_FAUCET"
  by (simp_all add: TYPE_SUB_LICENSE_def TYPE_AUTH_LOCK_def TYPE_AUTH_ACTIVATE_def
      TYPE_RENEWAL_def TYPE_FAUCET_def TYPE_COPYRIGHT_REG_def)

lemma first_failure_None: "first_failure f xs = None \<longleftrightarrow> (\<forall>x \<in> set xs. f x = None)"
  by (induction xs) (auto split: option.splits)

lemma ebind_Inr: "ebind m f = Inr y \<Longrightarrow> \<exists>x. m = Inr x \<and> f x = Inr y"
  by (cases m) (simp_all add: ebind_def)

lemma validate_transaction_generic:
  assumes acc: "validate_transaction ecdsa chain now tx = Inr (True, m)"
    and nf: "tx_type tx \<noteq> TYPE_FAUCET" and nr: "tx_type tx \<noteq> TYPE_COPYRIGHT_REG"
  shows "\<exists>input_amount. validate_inputs ecdsa chain now tx (inputs tx) 0 = Inr (Inr input_amount)
           \<and> sum_list (map o_amount (outputs tx)) \<le> input_amount
           \<and> validate_by_type chain now tx = Inr (True, m)"
proof -
  from acc nf nr have
    "ebind (validate_inputs ecdsa chain now tx (inputs tx) 0)
       (\<lambda>r. case r of
          Inl m \<Rightarrow> Inr (False, m)
        | Inr input_amount \<Rightarrow>
            (let output_amount = sum_list (map o_amount (outputs tx))
             in if output_amount > input_amount
                then Inr (False, Outputs_exceed_inputs output_amount input_amount)
                else validate_by_type chain now tx)) = Inr (True, m)"
    by (simp add: validate_transaction_def split: if_splits)
  from ebind_Inr [OF this] obtain r where
    r: "validate_inputs ecdsa chain now tx (inputs tx) 0 = Inr r"
    and k: "(case r of
          Inl m \<Rightarrow> Inr (False, m)
        | Inr input_amount \<Rightarrow>
            (let output_amount = sum_list (map o_amount (outputs tx))
             in if output_amount > input_amount
                then Inr (False, Outputs_exceed_inputs output_amount input_amount)
                else validate_by_type chain now tx)) = Inr (True, m)"
    by blast
  from k obtain a where a: "r = Inr a" by (cases r) simp_all
  from k a have "sum_list (map o_amount (outputs tx)) \<le> a"
    and "validate_by_type chain now tx = Inr (True, m)"
    by (simp_all add: Let_def split: if_splits)
  with r a show ?thesis by blast
qed

lemma validate_by_type_sub_license:
  assumes "validate_by_type chain now tx = Inr (True, m)" and "tx_type tx = TYPE_SUB_LICENSE"
  shows "\<exists>m'. validate_sub_license chain now tx = Inr (True, m')"
proof -
  from assms have
    "ebind (validate_sub_license chain now tx)
       (\<lambda>(is_valid, error_msg).
          if \<not> is_valid then Inr (False, error_msg)
          else ebind (validate_address_ownership chain now (tx_type tx) (inputs tx) (outputs tx))
                 (\<lambda>(is_valid, error_msg).
                    if \<not> is_valid then Inr (False, error_msg)
                    else Inr (True, Transaction_ok))) = Inr (True, m)"
    by (simp add: validate_by_type_def type_constants_distinct)
  from ebind_Inr [OF this] obtain r where
    r: "validate_sub_license chain now tx = Inr r"
    and k: "(case r of (is_valid, error_msg) \<Rightarrow>
          if \<not> is_valid then Inr (False, error_msg)
          else ebind (validate_address_ownership chain now (tx_type tx) (inputs tx) (outputs tx))
                 (\<lambda>(is_valid, error_msg).
                    if \<not> is_valid then Inr (False, error_msg)
                    else Inr (True, Transaction_ok))) = Inr (True, m)"
    by blast
  obtain v e where ve: "r = (v, e)" by (cases r)
  with k have "v = True" by (auto split: if_splits)
  with r ve show ?thesis by simp
qed

lemma find_input_payload_Some:
  "find_input_payload chain now ctype ins = Inr (Some p) \<Longrightarrow>
     \<exists>inp \<in> set ins. \<exists>u. get_utxo chain now (i_txid inp) (i_vout inp) 3 = Inr (Some u)
        \<and> u_utxo_type u = ''copyright'' \<and> copyright_type (u_payload u) = Some ctype
        \<and> u_payload u = p"
proof (induction ins)
  case Nil
  then show ?case by simp
next
  case (Cons inp rest)
  from Cons.prems obtain r where
    r: "get_utxo chain now (i_txid inp) (i_vout inp) 3 = Inr r"
    and k: "(case r of
               None \<Rightarrow> find_input_payload chain now ctype rest
             | Some u \<Rightarrow>
                 if u_utxo_type u = ''copyright'' \<and> copyright_type (u_payload u) = Some ctype
                 then Inr (Some (u_payload u))
                 else find_input_payload chain now ctype rest) = Inr (Some p)"
    using ebind_Inr [of "get_utxo chain now (i_txid inp) (i_vout inp) 3" _ "Some p"] by auto
  show ?case
  proof (cases r)
    case None
    with k Cons.IH show ?thesis by auto
  next
    case (Some u)
    show ?thesis
    proof (cases "u_utxo_type u = ''copyright'' \<and> copyright_type (u_payload u) = Some ctype")
      case True
      with k Some have "u_payload u = p" by simp
      with True r Some show ?thesis by auto
    next
      case False
      with k Some have "find_input_payload chain now ctype rest = Inr (Some p)" by auto
      with Cons.IH show ?thesis by auto
    qed
  qed
qed

lemma validate_sub_license_rights:
  assumes "validate_sub_license chain now tx = Inr (True, m)"
  shows "\<exists>parent. find_input_payload chain now ''proof'' (inputs tx) = Inr (Some parent)
           \<and> (\<forall>out \<in> set (c2_outputs_of tx).
                 set (get_rights_scope (o_payload out)) \<subseteq> set (get_rights_scope parent))"
proof -
  obtain found where f: "find_input_payload chain now ''proof'' (inputs tx) = Inr found"
    using assms
    by (cases "find_input_payload chain now ''proof'' (inputs tx)")
       (simp_all add: validate_sub_license_def ebind_def)
  obtain parent where p: "found = Some parent"
    using assms f by (cases found) (simp_all add: validate_sub_license_def ebind_def)
  from assms f p have "first_failure
                   (\<lambda>c2_out. if \<not> set (get_rights_scope (o_payload c2_out))
                                     \<subseteq> set (get_rights_scope parent)
                              then Some Sub_rights_not_subset else None)
                   (c2_outputs_of tx) = None"
    by (simp add: validate_sub_license_def ebind_def Let_def split: if_splits option.splits)
  then have "\<forall>out \<in> set (c2_outputs_of tx).
               set (get_rights_scope (o_payload out)) \<subseteq> set (get_rights_scope parent)"
    unfolding first_failure_None by (auto split: if_splits)
  with f p show ?thesis by blast
qed

lemma state_machine_table:
  "fst (validate_copyright_state_transition a (Some b)) \<longleftrightarrow>
     (a, b) \<in> {(''sovereignty'', ''sovereignty''), (''sovereignty'', ''instruction''),
                (''instruction'', ''proof''), (''proof'', ''proof''), (''proof'', ''secondary'')}"
  by (auto simp: validate_copyright_state_transition_def COPYRIGHT_STATE_MACHINE_def
      dict_get_def Let_def split: if_splits)

lemma validate_inputs_sum:
  "validate_inputs ecdsa chain now tx ins acc = Inr (Inr a) \<Longrightarrow>
     sum_input_amounts chain now ins acc = Inr a"
proof (induction ins arbitrary: acc)
  case Nil
  then show ?case by simp
next
  case (Cons inp rest)
  obtain r where r: "get_utxo chain now (i_txid inp) (i_vout inp) 3 = Inr r"
    using Cons.prems
    by (cases "get_utxo chain now (i_txid inp) (i_vout inp) 3") (simp_all add: ebind_def)
  obtain u where u: "r = Some u"
    using Cons.prems r by (cases r) (simp_all add: ebind_def)
  from Cons.prems r u have
    "validate_inputs ecdsa chain now tx rest (acc + u_amount u) = Inr (Inr a)"
    by (simp add: ebind_def Let_def split: if_splits sum.splits)
  from Cons.IH [OF this] r u show ?case by (simp add: ebind_def)
qed

lemma value_conservation_generic:
  assumes "validate_transaction ecdsa chain now tx = Inr (True, m)"
    and "tx_type tx \<noteq> TYPE_FAUCET" and "tx_type tx \<noteq> TYPE_COPYRIGHT_REG"
  shows "\<exists>input_amount. sum_input_amounts chain now (inputs tx) 0 = Inr input_amount
           \<and> sum_list (map o_amount (outputs tx)) \<le> input_amount"
  using validate_transaction_generic [OF assms] validate_inputs_sum by blast

lemma py_int_le: "x \<le> real_of_int k \<Longrightarrow> py_int x \<le> k"
  by (auto simp: py_int_def floor_le_iff ceiling_le_iff)

lemma validate_inputs_can_spend:
  "validate_inputs ecdsa chain now tx ins acc = Inr (Inr a) \<Longrightarrow> inp \<in> set ins \<Longrightarrow>
     \<exists>u script end_time.
        get_utxo chain now (i_txid inp) (i_vout inp) 3 = Inr (Some u)
        \<and> from_string (u_script_pubkey u) = Inr script
        \<and> (if u_utxo_type u = ''copyright'' \<and> payload_truthy (u_payload u)
            then ebind (payload_from_dict now (u_payload u))
                   (\<lambda>payload. Inr (Some (get_end_time payload)))
            else Inr None) = Inr end_time
        \<and> can_spend script (py_int now) [public_key_to_address (i_public_key inp)] end_time"
proof (induction ins arbitrary: acc)
  case Nil
  then show ?case by simp
next
  case (Cons x rest)
  obtain r where r: "get_utxo chain now (i_txid x) (i_vout x) 3 = Inr r"
    using Cons.prems(1)
    by (cases "get_utxo chain now (i_txid x) (i_vout x) 3") (simp_all add: ebind_def)
  obtain u where u: "r = Some u"
    using Cons.prems(1) r by (cases r) (simp_all add: ebind_def)
  obtain script where s: "from_string (u_script_pubkey u) = Inr script"
    using Cons.prems(1) r u
    by (cases "from_string (u_script_pubkey u)") (simp_all add: ebind_def split: if_splits)
  let ?e = "if u_utxo_type u = ''copyright'' \<and> payload_truthy (u_payload u)
            then ebind (payload_from_dict now (u_payload u))
                   (\<lambda>payload. Inr (Some (get_end_time payload)))
            else Inr None"
  obtain end_time where e: "?e = Inr end_time"
    using Cons.prems(1) r u s
    by (cases ?e) (simp_all add: ebind_def Let_def split: if_splits)
  from Cons.prems(1) r u s e have
    c: "can_spend script (py_int now) [public_key_to_address (i_public_key x)] end_time"
    and rest: "validate_inputs ecdsa chain now tx rest (acc + u_amount u) = Inr (Inr a)"
    by (simp_all add: ebind_def Let_def split: if_splits)
  show ?case
  proof (cases "inp = x")
    case True
    with r u s e c show ?thesis by blast
  next
    case False
    with Cons.prems(2) have "inp \<in> set rest" by simp
    from Cons.IH [OF rest this] show ?thesis .
  qed
qed

lemma expired_input_rejected:
  assumes acc: "validate_transaction ecdsa chain now tx = Inr (True, m)"
    and nf: "tx_type tx \<noteq> TYPE_FAUCET" and nr: "tx_type tx \<noteq> TYPE_COPYRIGHT_REG"
    and inp: "inp \<in> set (inputs tx)"
    and res: "get_utxo chain now (i_txid inp) (i_vout inp) 3 = Inr (Some u)"
    and cty: "u_utxo_type u = ''copyright''"
    and cre: "created_at (u_payload u) = Some c"
    and exp: "c + real_of_int AUTHORIZATION_DURATION_SECONDS \<le> real_of_int (py_int now)"
    and nz: "py_int c + AUTHORIZATION_DURATION_SECONDS \<noteq> 0"
  shows False
proof -
  from validate_transaction_generic [OF acc nf nr] obtain a where
    "validate_inputs ecdsa chain now tx (inputs tx) 0 = Inr (Inr a)" by blast
  from validate_inputs_can_spend [OF this inp] res obtain script end_time where
    e: "(if u_utxo_type u = ''copyright'' \<and> payload_truthy (u_payload u)
            then ebind (payload_from_dict now (u_payload u))
                   (\<lambda>payload. Inr (Some (get_end_time payload)))
            else Inr None) = Inr end_time"
    and cs: "can_spend script (py_int now) [public_key_to_address (i_public_key inp)] end_time"
    by auto
  from cre have tr: "payload_truthy (u_payload u)"
    by (auto simp: payload_truthy_def empty_payload_def)
  from e cty tr obtain p where p: "payload_from_dict now (u_payload u) = Inr p"
    and et: "end_time = Some (get_end_time p)"
    by (cases "payload_from_dict now (u_payload u)") (auto simp: ebind_def)
  from p cre have "cp_created_at p = c"
    by (auto simp: payload_from_dict_def split: option.splits)
  then have g: "get_end_time p = py_int c + AUTHORIZATION_DURATION_SECONDS"
    by (simp add: get_end_time_def)
  from exp have "c \<le> real_of_int (py_int now - AUTHORIZATION_DURATION_SECONDS)" by simp
  then have "py_int c \<le> py_int now - AUTHORIZATION_DURATION_SECONDS" by (rule py_int_le)
  then have "get_end_time p \<le> py_int now" using g by simp
  with cs et g nz show False by (simp add: can_spend_def)
qed

text \<open>
  Claim C2 fails on the code. The registration branch of \<open>validate_transaction\<close> returns
  the verdict of \<open>_validate_copyright_register\<close> and never reaches the loop over the
  inputs or the comparison of the amounts. On a chain where the miner holds 100 units, a
  registration that names that output as its input, unsigned, and creates 1000 units is
  accepted. (For every other type but faucet the comparison is made:
  \<open>value_conservation_generic\<close>.)
\<close>

theorem register_skips_value_check:
  "validate_transaction toy_ecdsa recent_chain 10000000 inflating_register
     = Inr (True, Register_ok)
   \<and> tx_type inflating_register = TYPE_COPYRIGHT_REG
   \<and> sum_input_amounts recent_chain 10000000 (inputs inflating_register) 0 = Inr 100
   \<and> sum_list (map o_amount (outputs inflating_register)) = 1000"
  by code_simp

text \<open>
  Claim C3 fails on the code, in two ways. A registration is accepted whatever its inputs
  are, so also when its input is a sovereignty output created at time \<open>0\<close> and the
  validation time is \<open>10000000\<close>. And \<open>can_spend\<close> tests \<open>if end_time and ...\<close>: an
  end time of \<open>0\<close> counts as no end time, so a signed redemption of a proof whose
  \<open>created_at\<close> is minus ninety days is accepted as well. (In every other case the
  loop over the inputs rejects the transaction: \<open>expired_input_rejected\<close>.)
\<close>

theorem expired_input_accepted:
  "map_sum id (map_option (\<lambda>u. (u_utxo_type u, created_at (u_payload u))))
       (get_utxo expired_chain 10000000 ''old'' 0 3) = Inr (Some (''copyright'', Some 0))
   \<and> (0::real) + 90 * 24 * 3600 \<le> 10000000
   \<and> inputs register_from_expired = [unsigned_input ''old'' 0]
   \<and> validate_transaction toy_ecdsa expired_chain 10000000 register_from_expired
        = Inr (True, Register_ok)
   \<and> map_sum id (map_option (\<lambda>u. (u_utxo_type u, created_at (u_payload u))))
       (get_utxo expired_chain 10000000 ''old'' 1 3)
        = Inr (Some (''copyright'', Some (- 7776000)))
   \<and> (- 7776000::real) + 90 * 24 * 3600 \<le> 10000000
   \<and> inputs redeem_zero_end = [signed_input ''old'' 1 ''alice'' ''red1'']
   \<and> validate_transaction toy_ecdsa expired_chain 10000000 redeem_zero_end
        = Inr (True, Transaction_ok)"
  by code_simp

text \<open>A signed redemption of the expired sovereignty itself is rejected by the input loop.\<close>

lemma redeem_expired_rejected:
  "validate_transaction toy_ecdsa expired_chain 10000000 redeem_expired
     = Inr (False, Lock_not_satisfied ''old'' 0)"
  by code_simp

text \<open>
  Claim C4, as amended. Every accepted \<open>copyright_register\<close> transaction has at least one
  input and at least one copyright output, and each of its copyright outputs has a
  \<open>work_hash\<close> key in its payload and \<open>copyright_type\<close> sovereignty.
\<close>

theorem accepted_register_shape:
  assumes acc: "validate_transaction ecdsa chain now tx = Inr (True, m)"
    and ty: "tx_type tx = TYPE_COPYRIGHT_REG"
  shows "inputs tx \<noteq> []
         \<and> (\<exists>out \<in> set (outputs tx). o_utxo_type out = ''copyright'')
         \<and> (\<forall>out \<in> set (outputs tx). o_utxo_type out = ''copyright''
               \<longrightarrow> work_hash (o_payload out) \<noteq> None
                   \<and> copyright_type (o_payload out) = Some ''sovereignty'')"
proof -
  from acc ty have reg: "validate_copyright_register tx = (True, m)"
    by (simp add: validate_transaction_def type_constants_distinct split: if_splits)
  let ?cs = "filter (\<lambda>out. o_utxo_type out = ''copyright'') (outputs tx)"
  let ?chk = "\<lambda>out. if work_hash (o_payload out) = None then Some Register_no_work_hash
                      else if copyright_type (o_payload out) \<noteq> Some ''sovereignty''
                      then Some Register_not_sovereignty else None"
  from reg have ne: "inputs tx \<noteq> []"
    by (auto simp: validate_copyright_register_def split: if_splits)
  from reg have cne: "?cs \<noteq> []"
    by (auto simp: validate_copyright_register_def Let_def split: if_splits)
  from reg ne cne have "first_failure ?chk ?cs = None"
    by (simp add: validate_copyright_register_def Let_def split: option.splits)
  then have all: "\<forall>out \<in> set ?cs. ?chk out = None"
    by (simp only: first_failure_None)
  have 1: "\<exists>out \<in> set (outputs tx). o_utxo_type out = ''copyright''"
  proof -
    from cne obtain out where "out \<in> set ?cs" by (cases ?cs) auto
    then show ?thesis by auto
  qed
  have 2: "\<forall>out \<in> set (outputs tx). o_utxo_type out = ''copyright''
               \<longrightarrow> work_hash (o_payload out) \<noteq> None
                   \<and> copyright_type (o_payload out) = Some ''sovereignty''"
  proof (intro ballI impI)
    fix out assume "out \<in> set (outputs tx)" "o_utxo_type out = ''copyright''"
    then have "out \<in> set ?cs" by simp
    with all have "?chk out = None" by blast
    then show "work_hash (o_payload out) \<noteq> None
                 \<and> copyright_type (o_payload out) = Some ''sovereignty''"
      by (simp split: if_splits)
  qed
  from ne 1 2 show ?thesis by blast
qed

text \<open>The theorem at an honest registration: Alice spends her faucet output, signed.\<close>

theorem accepted_register_shape_witness:
  "validate_transaction toy_ecdsa alice_chain 10000000 honest_register = Inr (True, Register_ok)
   \<and> tx_type honest_register = TYPE_COPYRIGHT_REG
   \<and> inputs honest_register \<noteq> []
   \<and> o_utxo_type (outputs honest_register ! 0) = ''copyright''
   \<and> work_hash (o_payload (outputs honest_register ! 0)) \<noteq> None
   \<and> copyright_type (o_payload (outputs honest_register ! 0)) = Some ''sovereignty''"
proof -
  have acc: "validate_transaction toy_ecdsa alice_chain 10000000 honest_register
               = Inr (True, Register_ok)"
    by code_simp
  have ty: "tx_type honest_register = TYPE_COPYRIGHT_REG"
    by (simp add: honest_register_def tx_of_def)
  have mem: "outputs honest_register ! 0 \<in> set (outputs honest_register)"
    by (simp add: honest_register_def tx_of_def)
  have c: "o_utxo_type (outputs honest_register ! 0) = ''copyright''"
    by (simp add: honest_register_def tx_of_def copyright_output_def)
  from accepted_register_shape [OF acc ty] have
    ne: "inputs honest_register \<noteq> []"
    and each: "\<forall>out \<in> set (outputs honest_register). o_utxo_type out = ''copyright''
               \<longrightarrow> work_hash (o_payload out) \<noteq> None
                   \<and> copyright_type (o_payload out) = Some ''sovereignty''"
    by blast+
  from each mem c have "work_hash (o_payload (outputs honest_register ! 0)) \<noteq> None
        \<and> copyright_type (o_payload (outputs honest_register ! 0)) = Some ''sovereignty''"
    by blast
  with acc ty ne c show ?thesis by blast
qed

text \<open>
  The claim as stated fails: a registration whose only input is on no block and whose
  sovereignty output has the empty string as \<open>work_hash\<close> is accepted.
\<close>

theorem accepted_register_counterexample:
  "validate_transaction toy_ecdsa recent_chain 10000000 hollow_register = Inr (True, Register_ok)
   \<and> tx_type hollow_register = TYPE_COPYRIGHT_REG
   \<and> inputs hollow_register = [dangling_input]
   \<and> get_utxo recent_chain 10000000 (i_txid dangling_input) (i_vout dangling_input) 3 = Inr None
   \<and> map (\<lambda>out. work_hash (o_payload out)) (outputs hollow_register) = [Some []]"
  by code_simp

text \<open>
  Claim C5 fails on the code. The state machine is consulted only by the type-specific
  checks, and only for outputs that were first filtered by type; other outputs are never
  compared with the inputs. A renewal that spends Bob's proof for work \<open>w1\<close> and creates
  a proof and a sovereignty for \<open>w1\<close> is accepted, although the state machine itself
  rejects proof to sovereignty. (The function itself implements the table of the claim:
  \<open>state_machine_table\<close>.)
\<close>

theorem renewal_mints_sovereignty_accepted:
  "validate_transaction toy_ecdsa license_chain 10000000 renewal_mints_sovereignty
     = Inr (True, Transaction_ok)
   \<and> map_sum id (map_option (\<lambda>u. (u_utxo_type u, copyright_type (u_payload u),
                                      work_hash (u_payload u))))
       (get_utxo license_chain 10000000 ''prf'' 0 3)
        = Inr (Some (''copyright'', Some ''proof'', Some ''w1''))
   \<and> inputs renewal_mints_sovereignty = [signed_input ''prf'' 0 ''bob'' ''ren1'']
   \<and> map (\<lambda>out. (o_utxo_type out, copyright_type (o_payload out), work_hash (o_payload out)))
        (outputs renewal_mints_sovereignty)
        = [(''copyright'', Some ''proof'', Some ''w1''),
           (''copyright'', Some ''sovereignty'', Some ''w1'')]
   \<and> validate_copyright_state_transition ''proof'' (Some ''sovereignty'')
        = (False, Illegal_transition ''proof'' (Some ''sovereignty''))"
  by code_simp

text \<open>
  What the validator does enforce for an accepted \<open>sub_license\<close> transaction: the rights
  of every copyright output of type secondary, read as \<open>payload.get("rights_scope", [])\<close>,
  are a subset of the rights of the first input that resolves to a copyright output of
  type proof, the one \<open>_validate_sub_license\<close> keeps as \<open>c1_proof_payload\<close>.
\<close>

lemma sub_license_first_proof_rights:
  assumes acc: "validate_transaction ecdsa chain now tx = Inr (True, m)"
    and ty: "tx_type tx = TYPE_SUB_LICENSE"
  shows "\<exists>inp \<in> set (inputs tx). \<exists>u.
           get_utxo chain now (i_txid inp) (i_vout inp) 3 = Inr (Some u)
           \<and> u_utxo_type u = ''copyright'' \<and> copyright_type (u_payload u) = Some ''proof''
           \<and> find_input_payload chain now ''proof'' (inputs tx) = Inr (Some (u_payload u))
           \<and> (\<forall>out \<in> set (outputs tx).
                 o_utxo_type out = ''copyright''
                   \<and> copyright_type (o_payload out) = Some ''secondary''
                 \<longrightarrow> set (get_rights_scope (o_payload out))
                       \<subseteq> set (get_rights_scope (u_payload u)))
           \<and> (\<Union>out \<in> {out \<in> set (outputs tx). o_utxo_type out = ''copyright''
                             \<and> copyright_type (o_payload out) = Some ''secondary''}.
                 set (get_rights_scope (o_payload out)))
               \<subseteq> set (get_rights_scope (u_payload u))"
proof -
  from ty have "tx_type tx \<noteq> TYPE_FAUCET" "tx_type tx \<noteq> TYPE_COPYRIGHT_REG"
    by (simp_all add: type_constants_distinct)
  from validate_transaction_generic [OF acc this]
  have "validate_by_type chain now tx = Inr (True, m)" by blast
  from validate_by_type_sub_license [OF this ty] obtain m' where
    "validate_sub_license chain now tx = Inr (True, m')" by blast
  from validate_sub_license_rights [OF this] obtain parent where
    f: "find_input_payload chain now ''proof'' (inputs tx) = Inr (Some parent)"
    and sub: "\<forall>out \<in> set (c2_outputs_of tx).
                set (get_rights_scope (o_payload out)) \<subseteq> set (get_rights_scope parent)"
    by blast
  from find_input_payload_Some [OF f] obtain inp u where
    iu: "inp \<in> set (inputs tx)" "get_utxo chain now (i_txid inp) (i_vout inp) 3 = Inr (Some u)"
        "u_utxo_type u = ''copyright''" "copyright_type (u_payload u) = Some ''proof''"
        "u_payload u = parent"
    by blast
  have each: "\<forall>out \<in> set (outputs tx).
                 o_utxo_type out = ''copyright''
                   \<and> copyright_type (o_payload out) = Some ''secondary''
                 \<longrightarrow> set (get_rights_scope (o_payload out)) \<subseteq> set (get_rights_scope parent)"
    using sub by (simp add: c2_outputs_of_def is_copyright_output_def)
  then have "(\<Union>out \<in> {out \<in> set (outputs tx). o_utxo_type out = ''copyright''
                             \<and> copyright_type (o_payload out) = Some ''secondary''}.
                 set (get_rights_scope (o_payload out)))
               \<subseteq> set (get_rights_scope parent)"
    by blast
  with each f iu show ?thesis by blast
qed

text \<open>A sub-license of a right that the parent does not hold is rejected.\<close>

lemma sub_license_adapt_rejected:
  "validate_transaction toy_ecdsa license_chain 10000000 sub_license_adapt
     = Inr (False, Sub_rights_not_subset)"
  by code_simp

text \<open>
  Claim C9 fails on the code. \<open>_validate_sub_license\<close> compares every secondary output
  with the first proof input it meets and never reads the \<open>parent_utxo\<close> or the
  \<open>work_hash\<close> of the secondary. With the proofs \<open>pa:0\<close> (work \<open>w1\<close>, print) and
  \<open>pb:0\<close> (work \<open>w2\<close>, adapt) as inputs, a secondary for \<open>w2\<close> that names \<open>pb:0\<close>
  as its parent and carries the right to print is accepted, although its parent holds
  only the right to adapt.
\<close>

theorem sub_license_outside_parent_accepted:
  "validate_transaction toy_ecdsa two_proofs_chain 10000000 cross_sub_license
     = Inr (True, Transaction_ok)
   \<and> map (\<lambda>out. (copyright_type (o_payload out), work_hash (o_payload out),
                   get_parent_utxo (o_payload out), get_rights_scope (o_payload out)))
        (outputs cross_sub_license)
        = [(Some ''proof'', Some ''w1'', None, [''print'']),
           (Some ''proof'', Some ''w2'', None, [''adapt'']),
           (Some ''secondary'', Some ''w2'', Some ''pb:0'', [''print''])]
   \<and> identifier_of ''pb'' 0 = ''pb:0''
   \<and> map_sum id (map_option (\<lambda>u. (copyright_type (u_payload u), work_hash (u_payload u),
                                     get_rights_scope (u_payload u))))
        (get_utxo two_proofs_chain 10000000 ''pb'' 0 3)
        = Inr (Some (Some ''proof'', Some ''w2'', [''adapt'']))
   \<and> \<not> set [''print''] \<subseteq> set [''adapt'']"
  by code_simp

section \<open>The miner (C1)\<close>

text \<open>
  What \<open>proof_of_work\<close> returns, when it returns, is the first nonce whose candidate
  block, stamped with the clock reading of its own pass, has a hash that begins with the
  target; and it returns as soon as some pass has such a candidate.
\<close>

lemma pow_loop_sound:
  assumes "pow_loop sha256_json clock last_block txs target n0 = Some n"
  shows "n0 \<le> n
     \<and> startswith (b_hash (candidate_block sha256_json clock last_block txs n)) target
     \<and> (\<forall>k. n0 \<le> k \<and> k < n \<longrightarrow>
            \<not> startswith (b_hash (candidate_block sha256_json clock last_block txs k)) target)"
proof -
  let ?P = "\<lambda>(h :: json \<Rightarrow> string) (c :: nat \<Rightarrow> real) (lb :: block) (ts :: transaction list)
              (tg :: string) (m0 :: nat) (m :: nat).
              m0 \<le> m \<and> startswith (b_hash (candidate_block h c lb ts m)) tg
              \<and> (\<forall>k. m0 \<le> k \<and> k < m \<longrightarrow>
                     \<not> startswith (b_hash (candidate_block h c lb ts k)) tg)"
  have "?P sha256_json clock last_block txs target n0 n"
  proof (rule pow_loop.raw_induct [where P = ?P, OF _ assms])
    fix f :: "(json \<Rightarrow> string) \<Rightarrow> (nat \<Rightarrow> real) \<Rightarrow> block \<Rightarrow> transaction list \<Rightarrow> string
                \<Rightarrow> nat \<Rightarrow> nat option"
    fix h c lb ts tg m0 m
    assume IH: "\<And>h c lb ts tg m0 m. f h c lb ts tg m0 = Some m \<Longrightarrow> ?P h c lb ts tg m0 m"
    assume body: "(if startswith (b_hash (candidate_block h c lb ts m0)) tg then Some m0
                   else f h c lb ts tg (m0 + 1)) = Some m"
    show "?P h c lb ts tg m0 m"
    proof (cases "startswith (b_hash (candidate_block h c lb ts m0)) tg")
      case True
      with body have "m = m0" by simp
      moreover have "\<forall>k. m0 \<le> k \<and> k < m0 \<longrightarrow>
              \<not> startswith (b_hash (candidate_block h c lb ts k)) tg"
        by arith
      ultimately show ?thesis using True by blast
    next
      case False
      with body have "f h c lb ts tg (m0 + 1) = Some m" by simp
      from IH [OF this] have
        a: "m0 + 1 \<le> m"
        and b: "startswith (b_hash (candidate_block h c lb ts m)) tg"
        and c: "\<forall>k. m0 + 1 \<le> k \<and> k < m \<longrightarrow>
                  \<not> startswith (b_hash (candidate_block h c lb ts k)) tg"
        by blast+
      have "\<forall>k. m0 \<le> k \<and> k < m \<longrightarrow>
              \<not> startswith (b_hash (candidate_block h c lb ts k)) tg"
      proof (intro allI impI)
        fix k assume k: "m0 \<le> k \<and> k < m"
        show "\<not> startswith (b_hash (candidate_block h c lb ts k)) tg"
        proof (cases "k = m0")
          case True
          with False show ?thesis by simp
        next
          case False
          with k have "m0 + 1 \<le> k \<and> k < m" by simp
          with c show ?thesis by blast
        qed
      qed
      moreover from a have "m0 \<le> m" by arith
      ultimately show ?thesis using b by blast
    qed
  qed
  then show ?thesis .
qed

lemma pow_loop_complete:
  "startswith (b_hash (candidate_block sha256_json clock last_block txs n)) target \<Longrightarrow>
     n0 \<le> n \<Longrightarrow> \<exists>m. pow_loop sha256_json clock last_block txs target n0 = Some m"
proof (induction "n - n0" arbitrary: n0)
  case 0
  then have "n0 = n" by simp
  with 0 show ?case by (simp add: pow_loop.simps [of _ _ _ _ _ n])
next
  case (Suc d)
  then have "d = n - (n0 + 1)" "n0 + 1 \<le> n" by simp_all
  from Suc(1) [OF this(1) Suc(3) this(2)] obtain m where
    "pow_loop sha256_json clock last_block txs target (n0 + 1) = Some m" by blast
  then show ?case by (simp add: pow_loop.simps [of _ _ _ _ _ n0])
qed

text \<open>
  The block that \<open>mine_block\<close> appends is built after \<open>proof_of_work\<close> has returned,
  with a new reading \<open>t_block\<close> of the clock: its hash is the digest of another dict
  than the one the accepted candidate was checked on, unless the two readings agree.
\<close>

lemma CPCBlock_hash:
  "b_hash (CPCBlock sha256_json idx ts txs prev nonce)
     = sha256_json (block_data idx ts txs prev nonce)"
  by (simp add: CPCBlock_def calculate_hash_def Let_def)

lemma mine_block_hash:
  assumes "mine_block sha256_json ecdsa now t_reward clock t_block blockchain pending
             = Some (Inr (chain', b))"
  shows "\<exists>txs n. b_transactions b = txs \<and> b_nonce b = int n
           \<and> proof_of_work sha256_json clock (last blockchain) txs 4 = Some n
           \<and> startswith (sha256_json (block_data (b_index (last blockchain) + 1) (clock n) txs
                                          (b_hash (last blockchain)) (int n))) ''0000''
           \<and> b_hash b = sha256_json (block_data (b_index (last blockchain) + 1) t_block txs
                                         (b_hash (last blockchain)) (int n))
           \<and> chain' = blockchain @ [b]"
proof -
  obtain vt fees where cv: "collect_valid ecdsa blockchain now pending [] 0 = (vt, fees)"
    by (cases "collect_valid ecdsa blockchain now pending [] 0")
  define txs where "txs = vt @ [reward_transaction sha256_json t_reward fees]"
  from assms cv have ne: "blockchain \<noteq> []"
    by (auto simp: mine_block_def Let_def)
  from assms cv ne obtain n where
    n: "proof_of_work sha256_json clock (last blockchain) txs 4 = Some n"
    by (cases "proof_of_work sha256_json clock (last blockchain) txs 4")
       (simp_all add: mine_block_def Let_def txs_def)
  from assms cv ne n have b: "b = CPCBlock sha256_json (b_index (last blockchain) + 1) t_block
                                    txs (b_hash (last blockchain)) (int n)"
    and c: "chain' = blockchain @ [b]"
    by (auto simp: mine_block_def Let_def txs_def)
  have four: "replicate (nat 4) CHR ''0'' = ''0000''" by (simp add: numeral_eq_Suc)
  have "pow_loop sha256_json clock (last blockchain) txs ''0000'' 0 = Some n"
    using n [unfolded proof_of_work_def four] .
  from pow_loop_sound [OF this] have
    "startswith (b_hash (candidate_block sha256_json clock (last blockchain) txs n)) ''0000''"
    by blast
  then have s: "startswith (sha256_json (block_data (b_index (last blockchain) + 1) (clock n) txs
                                          (b_hash (last blockchain)) (int n))) ''0000''"
    by (simp add: candidate_block_def CPCBlock_hash)
  from b have "b_transactions b = txs" "b_nonce b = int n"
    "b_hash b = sha256_json (block_data (b_index (last blockchain) + 1) t_block txs
                                         (b_hash (last blockchain)) (int n))"
    by (simp_all add: CPCBlock_def calculate_hash_def Let_def)
  with n s c show ?thesis by blast
qed

text \<open>
  Claim C1 fails on the code. With the stand-in digest, \<open>proof_of_work\<close> returns nonce
  \<open>1\<close>, whose candidate (timestamp \<open>10000004\<close>) has a digest that begins with four
  zeros; \<open>mine_block\<close> appends a block with that nonce and timestamp \<open>10000006\<close>, whose
  hash does not begin with four zeros.
\<close>

theorem mined_block_misses_difficulty:
  "proof_of_work toy_sha256 pow_clock (last recent_chain)
       [faucet_tx ''f9'' 9999900 5 ''alice'', reward_transaction toy_sha256 10000001 0] 4 = Some 1
   \<and> b_hash (candidate_block toy_sha256 pow_clock (last recent_chain)
       [faucet_tx ''f9'' 9999900 5 ''alice'', reward_transaction toy_sha256 10000001 0] 1)
        = ''0000c0de''
   \<and> map_option (map_sum id (\<lambda>(chain', b). (length chain', last chain' = b, b_index b,
          b_timestamp b, b_nonce b, b_hash b, startswith (b_hash b) ''0000'')))
       (mine_block toy_sha256 toy_ecdsa 10000000 10000001 pow_clock 10000006 recent_chain
          [faucet_tx ''f9'' 9999900 5 ''alice''])
        = Some (Inr (2, True, 1, 10000006, 1, ''5eedf00d'', False))"
  by code_simp

section \<open>Adding a signature (C7)\<close>

text \<open>
  What \<open>Transaction.add_signature\<close> leaves alone, for an index
  \<open>0 \<le> input_index < len(inputs)\<close>: the other inputs, the required signers of every
  input, the outputs, the type, the timestamp and the metadata. It stores the signature
  in the signatures table of the indexed input, and it computes the txid anew.
\<close>

lemma add_signature_frame:
  assumes lo: "0 \<le> input_index" and hi: "input_index < int (length (inputs tx))"
  shows "\<exists>tx'. add_signature sha256_json tx input_index signer_address signature = Inr tx'
           \<and> outputs tx' = outputs tx \<and> tx_type tx' = tx_type tx
           \<and> timestamp tx' = timestamp tx \<and> metadata tx' = metadata tx
           \<and> length (inputs tx') = length (inputs tx)
           \<and> map i_required_signers (inputs tx') = map i_required_signers (inputs tx)
           \<and> (\<forall>j < length (inputs tx). j \<noteq> nat input_index
                  \<longrightarrow> inputs tx' ! j = inputs tx ! j)
           \<and> inputs tx' ! nat input_index
                = (inputs tx ! nat input_index)
                    \<lparr> i_signatures := dict_setitem (i_signatures (inputs tx ! nat input_index))
                                         signer_address signature \<rparr>
           \<and> txid tx' = calculate_txid sha256_json tx'"
proof -
  define inp' where "inp' = input_add_signature (inputs tx ! nat input_index)
                              signer_address signature"
  define tx1 where "tx1 = tx \<lparr> inputs := (inputs tx) [nat input_index := inp'] \<rparr>"
  define tx' where "tx' = tx1 \<lparr> txid := calculate_txid sha256_json tx1 \<rparr>"
  from lo hi have i: "nat input_index < length (inputs tx)" by simp
  from lo hi have r: "add_signature sha256_json tx input_index signer_address signature = Inr tx'"
    by (simp add: add_signature_def Let_def tx'_def tx1_def inp'_def)
  have rs: "i_required_signers inp' = i_required_signers (inputs tx ! nat input_index)"
    by (simp add: inp'_def input_add_signature_def)
  have m: "map i_required_signers (inputs tx') = map i_required_signers (inputs tx)"
  proof -
    have "map i_required_signers (inputs tx')
            = (map i_required_signers (inputs tx))
                [nat input_index := map i_required_signers (inputs tx) ! nat input_index]"
      using i by (simp add: tx'_def tx1_def map_update rs)
    then show ?thesis by (simp only: list_update_id)
  qed
  have t: "calculate_txid sha256_json tx' = calculate_txid sha256_json tx1"
    by (simp add: tx'_def calculate_txid_def tx_data_def)
  have "outputs tx' = outputs tx" "tx_type tx' = tx_type tx" "timestamp tx' = timestamp tx"
    "metadata tx' = metadata tx" "length (inputs tx') = length (inputs tx)"
    by (simp_all add: tx'_def tx1_def)
  moreover have "\<forall>j < length (inputs tx). j \<noteq> nat input_index
                  \<longrightarrow> inputs tx' ! j = inputs tx ! j"
    by (simp add: tx'_def tx1_def)
  moreover have "inputs tx' ! nat input_index
                = (inputs tx ! nat input_index)
                    \<lparr> i_signatures := dict_setitem (i_signatures (inputs tx ! nat input_index))
                                         signer_address signature \<rparr>"
    using i by (simp add: tx'_def tx1_def inp'_def input_add_signature_def)
  moreover have "txid tx' = calculate_txid sha256_json tx'"
    unfolding t by (simp add: tx'_def)
  ultimately show ?thesis using r m by blast
qed

text \<open>
  Claim C7 fails on the code. The signatures table is part of the dict that
  \<open>calculate_txid\<close> hashes, and \<open>Transaction.add_signature\<close> computes the txid anew, so
  the txid changes (with the stand-in digest from \<open>44\<close> to \<open>46\<close>). The signature
  that was stored was made over the old txid and \<open>_verify_single_signature\<close> verifies
  over \<open>transaction.txid\<close>: the same signature that validates when it is stored the
  wallet's way, which leaves the txid alone, is rejected after
  \<open>Transaction.add_signature\<close>.
\<close>

theorem add_signature_breaks_signature:
  "txid unsigned_spend = ''44''
   \<and> validate_transaction toy_ecdsa alice_chain 10000000
        (wallet_signed unsigned_spend ''alice'' (toy_sign ''alice'' ''44''))
        = Inr (True, Transaction_ok)
   \<and> map_sum id (\<lambda>tx'. (txid tx', map i_signatures (inputs tx')))
        (add_signature toy_sha256 unsigned_spend 0 ''alice'' (toy_sign ''alice'' ''44''))
        = Inr (''46'', [[(''alice'', toy_sign ''alice'' ''44'')]])
   \<and> map_sum id tx_data
        (add_signature toy_sha256 unsigned_spend 0 ''alice'' (toy_sign ''alice'' ''44''))
        \<noteq> Inr (tx_data unsigned_spend)
   \<and> ebind (add_signature toy_sha256 unsigned_spend 0 ''alice'' (toy_sign ''alice'' ''44''))
        (validate_transaction toy_ecdsa alice_chain 10000000)
        = Inr (False, Signature_invalid ''f1'' 0)"
  by code_simp

end
